theory Spec2Isabelle
  imports Main
begin

section \<open>JavaScript strings\<close>

text \<open>
  Strings are lists of code units; the model covers the code units below 256.
  \<open>is_js_space\<close> is the white space and line terminator set that \<open>trim\<close> and
  \<open>trimStart\<close> remove, restricted to that range: TAB, LF, VT, FF, CR, SP, NBSP.
  A falsy string is the empty one.
\<close>

definition is_js_space :: "char \<Rightarrow> bool" where
  "is_js_space c = (c \<in> set [CHR 0x09, CHR 0x0A, CHR 0x0B, CHR 0x0C, CHR 0x0D, CHR 0x20, CHR 0xA0])"

definition trimStart :: "string \<Rightarrow> string" where
  "trimStart s = dropWhile is_js_space s"

definition trimEnd :: "string \<Rightarrow> string" where
  "trimEnd s = rev (dropWhile is_js_space (rev s))"

definition trim :: "string \<Rightarrow> string" where
  "trim s = trimEnd (trimStart s)"

definition startsWith :: "string \<Rightarrow> string \<Rightarrow> bool" where
  "startsWith s p = (take (length p) s = p)"

text \<open>\<open>s.indexOf(m)\<close>: the first position where \<open>m\<close> occurs; \<open>None\<close> stands for -1.\<close>

fun indexOf :: "string \<Rightarrow> string \<Rightarrow> nat option" where
  "indexOf [] m = (if m = [] then Some 0 else None)"
| "indexOf (c # cs) m =
     (if startsWith (c # cs) m then Some 0 else map_option Suc (indexOf cs m))"

definition includes_str :: "string \<Rightarrow> string \<Rightarrow> bool" where
  "includes_str s m = (indexOf s m \<noteq> None)"

text \<open>\<open>s.substring(i)\<close> for an index \<open>i\<close> that is not negative.\<close>

definition substring_from :: "string \<Rightarrow> nat \<Rightarrow> string" where
  "substring_from s i = drop i s"

text \<open>\<open>s.split(' ')\<close>: cut at every single space; the result is never empty.\<close>

fun split_space :: "string \<Rightarrow> string list" where
  "split_space [] = [[]]"
| "split_space (c # cs) =
     (if c = CHR '' '' then [] # split_space cs
      else (case split_space cs of
              [] \<Rightarrow> [[c]]
            | w # ws \<Rightarrow> (c # w) # ws))"

text \<open>\<open>ws.join(' ')\<close>.\<close>

fun join_space :: "string list \<Rightarrow> string" where
  "join_space [] = []"
| "join_space [w] = w"
| "join_space (w # v # ws) = w @ CHR '' '' # join_space (v # ws)"

text \<open>\<open>m || d\<close> on an optional string: a missing or empty value gives the default.\<close>

definition or_else :: "string option \<Rightarrow> string \<Rightarrow> string" where
  "or_else m d = (case m of None \<Rightarrow> d | Some s \<Rightarrow> if s = [] then d else s)"

section \<open>Summarization editor: the follow-up stream\<close>

definition REPLACE_SUMMARY_COMMAND :: string where
  "REPLACE_SUMMARY_COMMAND = ''[replace_summary_with_new_text]''"

text \<open>The component state that \<open>handleAskFollowUp\<close> reads and writes.\<close>

record editor_state =
  aiInstance :: bool
  displayText :: string
  isSummaryComplete :: bool
  followUpQuestion :: string
  followUpResponse :: string
  isAskingFollowUp :: bool
  followUpError :: "string option"
  didFollowUpActAsReplacement :: bool
  isReplacingSummaryRef :: bool

text \<open>The two accumulators local to one call.\<close>

record followup_locals =
  revisedSummaryAccumulator :: string
  currentFollowUpTextAccumulator :: string

text \<open>
  How a stream ends: normally, or by throwing an error whose \<open>message\<close> may be missing.
\<close>

datatype stream_end = StreamDone | StreamThrows "string option"

text \<open>One iteration of the \<open>for await\<close> loop; \<open>chunk.text\<close> may be undefined.\<close>

definition followUp_chunk ::
  "string option \<Rightarrow> followup_locals \<times> editor_state \<Rightarrow> followup_locals \<times> editor_state" where
  "followUp_chunk chunk ls =
     (case ls of (l, s) \<Rightarrow>
        (case chunk of
           None \<Rightarrow> (l, s)
         | Some textChunk \<Rightarrow>
             if textChunk = [] then (l, s)
             else if \<not> isReplacingSummaryRef s \<and> includes_str textChunk REPLACE_SUMMARY_COMMAND then
               (let s1 = s\<lparr>isReplacingSummaryRef := True, didFollowUpActAsReplacement := True\<rparr>;
                    textAfterCommand =
                      trimStart (substring_from textChunk
                        (the (indexOf textChunk REPLACE_SUMMARY_COMMAND)
                           + length REPLACE_SUMMARY_COMMAND))
                in if textAfterCommand \<noteq> [] then
                     (let r = revisedSummaryAccumulator l @ textAfterCommand
                      in (l\<lparr>revisedSummaryAccumulator := r\<rparr>, s1\<lparr>displayText := r\<rparr>))
                   else (l, s1))
             else if isReplacingSummaryRef s then
               (let r = revisedSummaryAccumulator l @ textChunk
                in (l\<lparr>revisedSummaryAccumulator := r\<rparr>, s\<lparr>displayText := r\<rparr>))
             else
               (let f = currentFollowUpTextAccumulator l @ textChunk
                in (l\<lparr>currentFollowUpTextAccumulator := f\<rparr>, s\<lparr>followUpResponse := f\<rparr>))))"

fun followUp_loop ::
  "string option list \<Rightarrow> followup_locals \<times> editor_state \<Rightarrow> followup_locals \<times> editor_state" where
  "followUp_loop [] ls = ls"
| "followUp_loop (chunk # chunks) ls = followUp_loop chunks (followUp_chunk chunk ls)"

text \<open>
  \<open>handleAskFollowUp\<close> on a stream that delivers \<open>chunks\<close> and then ends as \<open>fin\<close>.
  The accumulators are returned with the state so that they can be observed.
\<close>

definition handleAskFollowUp ::
  "string option list \<Rightarrow> stream_end \<Rightarrow> editor_state \<Rightarrow> followup_locals \<times> editor_state" where
  "handleAskFollowUp chunks fin s =
     (let l0 = \<lparr>revisedSummaryAccumulator = [], currentFollowUpTextAccumulator = []\<rparr>
      in if \<not> aiInstance s \<or> trim (followUpQuestion s) = [] \<or> trim (displayText s) = []
            \<or> \<not> isSummaryComplete s
         then (l0, s\<lparr>followUpError := Some
                 ''Cannot ask follow-up: AI service not ready, question is empty, or no summary context available.''\<rparr>)
         else
           (let s0 = s\<lparr>isAskingFollowUp := True, followUpError := None, followUpResponse := [],
                       didFollowUpActAsReplacement := False, isReplacingSummaryRef := False\<rparr>;
                (l1, s1) = followUp_loop chunks (l0, s0);
                s2 = (case fin of
                        StreamDone \<Rightarrow>
                          if isReplacingSummaryRef s1 \<and> revisedSummaryAccumulator l1 = []
                          then s1\<lparr>displayText := []\<rparr> else s1
                      | StreamThrows msg \<Rightarrow>
                          s1\<lparr>followUpError := Some (''Follow-up failed: '' @ or_else msg ''Unknown error'')\<rparr>)
            in (l1, s2\<lparr>isAskingFollowUp := False\<rparr>)))"

text \<open>The text of a chunk as the loop sees it: a chunk without text contributes nothing.\<close>

definition chunk_text :: "string option \<Rightarrow> string" where
  "chunk_text c = (case c of None \<Rightarrow> [] | Some t \<Rightarrow> t)"

definition chunk_has_marker :: "string option \<Rightarrow> bool" where
  "chunk_has_marker c = includes_str (chunk_text c) REPLACE_SUMMARY_COMMAND"

text \<open>A state in which the follow-up guard lets the call through.\<close>

definition followUp_ready :: "editor_state \<Rightarrow> bool" where
  "followUp_ready s =
     (aiInstance s \<and> trim (followUpQuestion s) \<noteq> [] \<and> trim (displayText s) \<noteq> []
      \<and> isSummaryComplete s)"

definition editor_example :: editor_state where
  "editor_example =
     \<lparr>aiInstance = True, displayText = ''Old summary'', isSummaryComplete = True,
      followUpQuestion = ''shorter please'', followUpResponse = [], isAskingFollowUp = False,
      followUpError = None, didFollowUpActAsReplacement = False, isReplacingSummaryRef = False\<rparr>"

section \<open>Messages, stored chats and the application state\<close>

datatype Sender = User | AI

record ThinkingDetails =
  enabled :: bool
  budget :: "int option"
  modelUsed :: "string option"
  reasoningSupportedByModel :: bool

text \<open>
  \<open>ChatMessageContent\<close>; the fields \<open>id\<close> and \<open>text\<close> are \<open>msg_id\<close> and \<open>msg_text\<close>.
  An optional field that is not set is \<open>None\<close>.
\<close>

record ChatMessageContent =
  msg_id :: string
  msg_text :: string
  sender :: Sender
  isStreaming :: "bool option"
  isError :: "bool option"
  thinkingDetails :: "ThinkingDetails option"

text \<open>\<open>StoredChat\<close>; the fields \<open>id\<close> and \<open>messages\<close> are \<open>chat_id\<close> and \<open>chat_messages\<close>.\<close>

record StoredChat =
  chat_id :: string
  title :: string
  createdAt :: string
  chat_messages :: "ChatMessageContent list"
  aiMessagesSinceLastTitleUpdate :: "nat option"

datatype AppView = ChatView | SettingsView | SummarizerView

record ChatContextForTitleUpdate =
  job_id :: string
  isNew :: bool
  messagesForContext :: "ChatMessageContent list"

text \<open>The six preference states of \<open>App\<close>.\<close>

record preferences =
  baseTheme :: string
  accentTheme :: string
  customCSS :: string
  targetLanguage :: string
  thinkingBudget :: int
  currentChatModel :: string

text \<open>
  The state of \<open>App\<close>. \<open>setMessagesLog\<close> is not a variable of the source: it records, oldest
  first, every value that a call of \<open>setMessages\<close> has produced, so that the sequence of
  message updates of a turn can be stated. The timer that later runs
  \<open>processTitleUpdateQueue\<close> is not part of the state; its firing is a step of its own.
\<close>

record app_state =
  messages :: "ChatMessageContent list"
  isLoading :: bool
  isTitleLoading :: bool
  error :: "string option"
  isSidebarOpen :: bool
  currentView :: AppView
  textToSummarizeForEditor :: "string option"
  currentChatId :: "string option"
  allChats :: "StoredChat list"
  prefs :: preferences
  appInitialWelcomeTextRef :: string
  titleUpdateQueue :: "ChatContextForTitleUpdate option"
  setMessagesLog :: "ChatMessageContent list list"

text \<open>
  The values of one render that the closures created in that render keep seeing, however
  the state changes afterwards.
\<close>

record render =
  r_currentChatId :: "string option"
  r_messages :: "ChatMessageContent list"
  r_allChats :: "StoredChat list"

definition render_of :: "app_state \<Rightarrow> render" where
  "render_of s =
     \<lparr>r_currentChatId = currentChatId s, r_messages = messages s, r_allChats = allChats s\<rparr>"

definition setMessages ::
  "(ChatMessageContent list \<Rightarrow> ChatMessageContent list) \<Rightarrow> app_state \<Rightarrow> app_state" where
  "setMessages f s =
     s\<lparr>messages := f (messages s), setMessagesLog := setMessagesLog s @ [f (messages s)]\<rparr>"

section \<open>Models and the welcome text\<close>

definition AVAILABLE_CHAT_MODELS :: "string list" where
  "AVAILABLE_CHAT_MODELS = [''gemini-2.5-flash'', ''gemini-2.5-pro'', ''gemini-2.5-flash-lite'']"

definition MODEL_FRIENDLY_NAMES :: "(string \<times> string) list" where
  "MODEL_FRIENDLY_NAMES =
     [(''gemini-2.5-flash'', ''Flash (Fast & Efficient)''),
      (''gemini-2.5-pro'', ''Pro (Advanced & Powerful)''),
      (''gemini-2.5-flash-lite'', ''Flash Lite (Ultra Fast)'')]"

text \<open>
  The lookup in the table of friendly names, for a model id that is not the name of a
  property that every object inherits (such as \<open>constructor\<close>).
\<close>

definition getFriendlyModelName :: "string \<Rightarrow> string" where
  "getFriendlyModelName modelId = or_else (map_of MODEL_FRIENDLY_NAMES modelId) modelId"

definition DEFAULT_CHAT_MODEL :: string where
  "DEFAULT_CHAT_MODEL = ''gemini-2.5-flash''"

definition THINKING_CONFIG_SUPPORTED_MODELS :: "string list" where
  "THINKING_CONFIG_SUPPORTED_MODELS = [''gemini-2.5-flash'']"

definition INITIAL_AI_WELCOME_TEXT_BASE :: string where
  "INITIAL_AI_WELCOME_TEXT_BASE = ''Hello! I'' @ [CHR 0x27] @ ''m NeuraMorphosis AI.''"

definition createAppInitialWelcomeText :: "string \<Rightarrow> string" where
  "createAppInitialWelcomeText modelIdForWelcome =
     INITIAL_AI_WELCOME_TEXT_BASE @ '' You are currently the '' @ [CHR 0x27]
       @ getFriendlyModelName modelIdForWelcome @ [CHR 0x27]
       @ '' model. How can I help you today? You can use **Markdown** for *formatting*! ''
       @ [CHR 0x0A, CHR 0x0A] @ ''I am a text-based assistant.''"

text \<open>A string or null used as a condition: null and the empty string are falsy.\<close>

definition truthy :: "string option \<Rightarrow> bool" where
  "truthy x = (case x of None \<Rightarrow> False | Some v \<Rightarrow> v \<noteq> [])"

definition isEffectivelyNewChat :: "app_state \<Rightarrow> bool" where
  "isEffectivelyNewChat s =
     (length (messages s) \<le> 1
      \<and> (case messages s of
            [] \<Rightarrow> True
          | m # _ \<Rightarrow> sender m = AI \<and> startsWith (msg_text m) INITIAL_AI_WELCOME_TEXT_BASE)
      \<and> \<not> isLoading s)"

section \<open>The history sent to the backend and the chat request\<close>

datatype Role = RoleUser | RoleModel

datatype Part = TextPart string | InlineData string string

record ChatMessageHistoryItem =
  role :: Role
  parts :: "Part list"

fun mapMessagesToGeminiHistory :: "ChatMessageContent list \<Rightarrow> ChatMessageHistoryItem list" where
  "mapMessagesToGeminiHistory [] = []"
| "mapMessagesToGeminiHistory (msg # rest) =
     (if sender msg = AI \<and> startsWith (msg_text msg) INITIAL_AI_WELCOME_TEXT_BASE
      then mapMessagesToGeminiHistory rest
      else if trim (msg_text msg) = [] then mapMessagesToGeminiHistory rest
      else (let currentMessageParts = (if msg_text msg \<noteq> [] then [TextPart (msg_text msg)] else [])
            in if currentMessageParts \<noteq> []
               then \<lparr>role = (if sender msg = User then RoleUser else RoleModel),
                     parts = currentMessageParts\<rparr> # mapMessagesToGeminiHistory rest
               else mapMessagesToGeminiHistory rest))"

text \<open>\<open>chatConfig\<close>: \<open>thinkingConfig\<close> is the optional \<open>{thinkingBudget}\<close> object.\<close>

record chatConfig =
  systemInstruction :: string
  thinkingConfig :: "int option"

definition systemInstruction_for :: "string \<Rightarrow> string" where
  "systemInstruction_for friendlyModelName =
     ''You are NeuraMorphosis AI, a helpful and independent text-based chat assistant. You are currently operating as the ''
       @ [CHR 0x27] @ friendlyModelName @ [CHR 0x27] @ '' model configuration.'' @ [CHR 0x0A]
       @ ''Provide helpful text-based responses.'' @ [CHR 0x0A]
       @ ''If asked about your capabilities, mention you are a text-based assistant.'' @ [CHR 0x0A]
       @ ''Respond in the language of the user'' @ [CHR 0x27]
       @ ''s input if it is clear, otherwise default to English.'' @ [CHR 0x0A]"

text \<open>The payload of the \<open>chat\<close> request that the proxy gateway posts.\<close>

record chat_payload =
  p_history :: "ChatMessageHistoryItem list"
  p_message_parts :: "Part list"
  p_model :: string
  p_config :: chatConfig

text \<open>
  The request built by \<open>sendMessageToChatStream\<close> of the proxy gateway. The message is a
  string or a list of parts; the budget is compared with \<open>undefined\<close>, hence optional.
\<close>

definition sendMessageToChatStream_payload ::
  "string + Part list \<Rightarrow> ChatMessageHistoryItem list \<Rightarrow> string \<Rightarrow> int option \<Rightarrow> chat_payload" where
  "sendMessageToChatStream_payload message history model budgetArg =
     (let friendlyModelName = getFriendlyModelName model;
          chatConfig0 = \<lparr>systemInstruction = systemInstruction_for friendlyModelName,
                         thinkingConfig = None\<rparr>;
          chatConfig1 = (if model = ''gemini-2.5-flash'' \<and> budgetArg \<noteq> None
                         then chatConfig0\<lparr>thinkingConfig := budgetArg\<rparr> else chatConfig0);
          partsForMessage = (case message of Inl str \<Rightarrow> [TextPart str] | Inr ps \<Rightarrow> ps)
      in \<lparr>p_history = history, p_message_parts = partsForMessage, p_model = model,
          p_config = chatConfig1\<rparr>)"

section \<open>Title scheduling\<close>

definition TITLE_UPDATE_MESSAGE_THRESHOLD :: nat where
  "TITLE_UPDATE_MESSAGE_THRESHOLD = 3"

text \<open>\<open>scheduleTitleUpdate\<close> as created in render \<open>r\<close>: it replaces the pending job.\<close>

definition scheduleTitleUpdate :: "render \<Rightarrow> string \<Rightarrow> bool \<Rightarrow> app_state \<Rightarrow> app_state" where
  "scheduleTitleUpdate r chatIdToUpdate isNewChat s =
     (let msgs = (if Some chatIdToUpdate = r_currentChatId r then r_messages r
                  else (case find (\<lambda>c. chat_id c = chatIdToUpdate) (r_allChats r) of
                          None \<Rightarrow> []
                        | Some c \<Rightarrow> chat_messages c))
      in if msgs = [] \<and> \<not> isNewChat then s
         else s\<lparr>titleUpdateQueue :=
                  Some \<lparr>job_id = chatIdToUpdate, isNew = isNewChat, messagesForContext = msgs\<rparr>\<rparr>)"

section \<open>One chat turn: \<open>handleSendMessage\<close>\<close>

text \<open>\<open>thinkingDetailsForMessage\<close>, from the model and the budget of the render.\<close>

definition thinkingDetails_of :: "preferences \<Rightarrow> ThinkingDetails option" where
  "thinkingDetails_of p =
     (if currentChatModel p \<in> set THINKING_CONFIG_SUPPORTED_MODELS
      then Some \<lparr>enabled = (thinkingBudget p > 0), budget = Some (thinkingBudget p),
                 modelUsed = Some (currentChatModel p), reasoningSupportedByModel = True\<rparr>
      else None)"

text \<open>What the running call keeps in its closure and its constants.\<close>

record turn =
  t_render :: render
  aiResponseId :: string
  updatedMessagesWithUser :: "ChatMessageContent list"
  thinkingDetailsForMessage :: "ThinkingDetails option"

text \<open>
  The synchronous part up to the request. \<open>now_user\<close> and \<open>now_ai\<close> are the two readings of
  \<open>Date.now()\<close>, in decimal. \<open>None\<close>: the call returns at once and changes nothing.
\<close>

definition handleSendMessage_start ::
  "string \<Rightarrow> string \<Rightarrow> string \<Rightarrow> app_state \<Rightarrow> (turn \<times> app_state) option" where
  "handleSendMessage_start now_user now_ai inputText s =
     (if trim inputText = [] \<or> isLoading s then None
      else
        (let r = render_of s;
             s1 = s\<lparr>error := None, isLoading := True, currentView := ChatView\<rparr>;
             userMessage = \<lparr>msg_id = ''user-'' @ now_user, msg_text = inputText, sender = User,
                            isStreaming = None, isError = None, thinkingDetails = None\<rparr>;
             baseMessagesForThisTurn = (if isEffectivelyNewChat s then [] else messages s);
             updated = baseMessagesForThisTurn @ [userMessage];
             s2 = setMessages (\<lambda>_. updated) s1;
             s3 = (if truthy (currentChatId s) then
                     (let s' = s2\<lparr>allChats :=
                                   map (\<lambda>chat. if Some (chat_id chat) = currentChatId s
                                               then chat\<lparr>chat_messages := updated\<rparr> else chat)
                                     (allChats s2)\<rparr>
                      in if isEffectivelyNewChat s
                         then scheduleTitleUpdate r (the (currentChatId s)) True s' else s')
                   else s2);
             aiId = ''ai-'' @ now_ai;
             td = thinkingDetails_of (prefs s);
             aiMessage = \<lparr>msg_id = aiId, msg_text = [], sender = AI, isStreaming = Some True,
                          isError = None, thinkingDetails = td\<rparr>;
             s4 = setMessages (\<lambda>prev. prev @ [aiMessage]) s3
         in Some (\<lparr>t_render = r, aiResponseId = aiId, updatedMessagesWithUser = updated,
                    thinkingDetailsForMessage = td\<rparr>, s4)))"

text \<open>The request of the turn: the history without its last item, the current user message.\<close>

definition handleSendMessage_payload :: "string \<Rightarrow> turn \<Rightarrow> app_state \<Rightarrow> chat_payload" where
  "handleSendMessage_payload inputText t s =
     sendMessageToChatStream_payload (Inl inputText)
       (butlast (mapMessagesToGeminiHistory (updatedMessagesWithUser t)))
       (currentChatModel (prefs s)) (Some (thinkingBudget (prefs s)))"

text \<open>\<open>switchChat\<close>, run by the user between two chunks.\<close>

definition switchChat :: "string \<Rightarrow> app_state \<Rightarrow> app_state" where
  "switchChat chatId s =
     (case find (\<lambda>c. chat_id c = chatId) (allChats s) of
        None \<Rightarrow> s
      | Some chatToLoad \<Rightarrow>
          (let s1 = setMessages (\<lambda>_. chat_messages chatToLoad) s;
               s2 = s1\<lparr>currentChatId := Some chatId\<rparr>;
               s3 = s2\<lparr>appInitialWelcomeTextRef :=
                          (case chat_messages chatToLoad of
                             [] \<Rightarrow> createAppInitialWelcomeText (currentChatModel (prefs s))
                           | m # _ \<Rightarrow>
                               if sender m = AI \<and> startsWith (msg_text m) INITIAL_AI_WELCOME_TEXT_BASE
                               then msg_text m
                               else createAppInitialWelcomeText (currentChatModel (prefs s)))\<rparr>
           in s3\<lparr>error := None, isLoading := False, isSidebarOpen := False,
                  currentView := ChatView, textToSummarizeForEditor := None\<rparr>))"

text \<open>
  What happens while the stream is open: a chunk arrives (its text may be undefined), or
  the user switches to another chat.
\<close>

datatype turn_event = Chunk "string option" | SwitchChat string

text \<open>One event; the first component is \<open>accumulatedRegularText\<close>.\<close>

definition turn_step :: "turn \<Rightarrow> turn_event \<Rightarrow> string \<times> app_state \<Rightarrow> string \<times> app_state" where
  "turn_step t e as =
     (case as of (acc, s) \<Rightarrow>
        (case e of
           SwitchChat chatId \<Rightarrow> (acc, switchChat chatId s)
         | Chunk None \<Rightarrow> (acc, s)
         | Chunk (Some textContent) \<Rightarrow>
             if textContent = [] then (acc, s)
             else (let acc' = acc @ textContent
                   in (acc', setMessages
                               (map (\<lambda>msg. if msg_id msg = aiResponseId t
                                           then msg\<lparr>msg_text := acc'\<rparr> else msg)) s))))"

fun turn_loop :: "turn \<Rightarrow> turn_event list \<Rightarrow> string \<times> app_state \<Rightarrow> string \<times> app_state" where
  "turn_loop t [] as = as"
| "turn_loop t (e # es) as = turn_loop t es (turn_step t e as)"

text \<open>The \<open>finally\<close> block.\<close>

definition turn_finally :: "turn \<Rightarrow> string \<Rightarrow> app_state \<Rightarrow> app_state" where
  "turn_finally t acc s =
     setMessages (map (\<lambda>msg. if msg_id msg = aiResponseId t
                             then msg\<lparr>msg_text := acc, isStreaming := Some False\<rparr> else msg)) s"

text \<open>The \<open>catch\<close> block, which returns through the \<open>finally\<close> block.\<close>

definition turn_catch :: "turn \<Rightarrow> string option \<Rightarrow> string \<Rightarrow> app_state \<Rightarrow> app_state" where
  "turn_catch t e_message acc s =
     (let errorMessage = ''Error: '' @ or_else e_message ''Failed to get response from AI.'';
          s1 = s\<lparr>error := Some errorMessage\<rparr>;
          s2 = setMessages (map (\<lambda>msg. if msg_id msg = aiResponseId t
                                       then msg\<lparr>msg_text := errorMessage, isError := Some True,
                                                isStreaming := Some False\<rparr>
                                       else msg)) s1;
          s3 = s2\<lparr>isLoading := False\<rparr>
      in turn_finally t acc s3)"

definition finalAiMessage :: "turn \<Rightarrow> string \<Rightarrow> ChatMessageContent" where
  "finalAiMessage t acc =
     \<lparr>msg_id = aiResponseId t, msg_text = acc, sender = AI, isStreaming = Some False,
      isError = None, thinkingDetails = thinkingDetailsForMessage t\<rparr>"

text \<open>The normal end: the \<open>finally\<close> block, then the code after the \<open>try\<close> statement.\<close>

definition turn_complete :: "turn \<Rightarrow> string \<Rightarrow> app_state \<Rightarrow> app_state" where
  "turn_complete t acc s =
     (let s1 = turn_finally t acc s;
          s2 = setMessages (map (\<lambda>msg. if msg_id msg = aiResponseId t
                                       then finalAiMessage t acc else msg)) s1;
          cid = r_currentChatId (t_render t);
          newCount = (\<lambda>chat. (case aiMessagesSinceLastTitleUpdate chat of None \<Rightarrow> 0 | Some n \<Rightarrow> n) + 1);
          s3 = (if truthy cid then
                  (let s' = s2\<lparr>allChats :=
                                map (\<lambda>chat. if Some (chat_id chat) = cid
                                            then chat\<lparr>chat_messages :=
                                                        filter (\<lambda>m. msg_id m \<noteq> aiResponseId t)
                                                          (updatedMessagesWithUser t)
                                                        @ [finalAiMessage t acc],
                                                      aiMessagesSinceLastTitleUpdate := Some (newCount chat)\<rparr>
                                            else chat)
                                  (allChats s2)\<rparr>
                   in if list_ex (\<lambda>chat. Some (chat_id chat) = cid
                                      \<and> newCount chat \<ge> TITLE_UPDATE_MESSAGE_THRESHOLD
                                      \<and> title chat \<noteq> ''New Chat'') (allChats s2)
                      then scheduleTitleUpdate (t_render t) (the cid) False s' else s')
                else s2)
      in s3\<lparr>isLoading := False\<rparr>)"

definition turn_end :: "turn \<Rightarrow> stream_end \<Rightarrow> string \<times> app_state \<Rightarrow> app_state" where
  "turn_end t fin as =
     (case as of (acc, s) \<Rightarrow>
        (case fin of
           StreamThrows e_message \<Rightarrow> turn_catch t e_message acc s
         | StreamDone \<Rightarrow> turn_complete t acc s))"

text \<open>
  The whole call on a stream that lets \<open>events\<close> happen and then ends as \<open>fin\<close>.
\<close>

definition handleSendMessage ::
  "string \<Rightarrow> string \<Rightarrow> string \<Rightarrow> turn_event list \<Rightarrow> stream_end \<Rightarrow> app_state \<Rightarrow> app_state" where
  "handleSendMessage now_user now_ai inputText events fin s =
     (case handleSendMessage_start now_user now_ai inputText s of
        None \<Rightarrow> s
      | Some (t, s1) \<Rightarrow> turn_end t fin (turn_loop t events ([], s1)))"

text \<open>The messages stored for a chat id, if that chat is stored.\<close>

definition stored_messages :: "string \<Rightarrow> app_state \<Rightarrow> ChatMessageContent list option" where
  "stored_messages cid s = map_option chat_messages (find (\<lambda>c. chat_id c = cid) (allChats s))"

section \<open>Title generation\<close>

definition generateFallbackTitle :: "ChatMessageContent list \<Rightarrow> string" where
  "generateFallbackTitle chatMessages =
     (case find (\<lambda>msg. sender msg = User) chatMessages of
        None \<Rightarrow> ''Chat Conversation''
      | Some firstUserMsg \<Rightarrow>
          if msg_text firstUserMsg \<noteq> [] then
            (let words = split_space (trim (msg_text firstUserMsg))
             in join_space (take (min (length words) 4) words)
                  @ (if length words > 4 then ''...'' else []))
          else ''Chat Conversation'')"

definition mapAppMessagesToGeminiHistoryForTitle ::
  "ChatMessageContent list \<Rightarrow> string \<Rightarrow> ChatMessageHistoryItem list" where
  "mapAppMessagesToGeminiHistoryForTitle msgs initialWelcomeTextBase =
     map (\<lambda>msg. \<lparr>role = (if sender msg = User then RoleUser else RoleModel),
                  parts = [TextPart (msg_text msg)]\<rparr>)
       (filter (\<lambda>msg.
                  if sender msg = User then True
                  else if sender msg = AI
                          \<and> \<not> startsWith (msg_text msg) ''AI is viewing the image''
                          \<and> \<not> startsWith (msg_text msg) ''NeuraMorphosis AI is thinking deeply...''
                          \<and> \<not> startsWith (msg_text msg) initialWelcomeTextBase
                  then True else False) msgs)"

text \<open>\<open>lines.join('\n')\<close>.\<close>

fun join_newline :: "string list \<Rightarrow> string" where
  "join_newline [] = []"
| "join_newline [w] = w"
| "join_newline (w # v # ws) = w @ CHR 0x0A # join_newline (v # ws)"

definition role_name :: "Role \<Rightarrow> string" where
  "role_name r = (case r of RoleUser \<Rightarrow> ''user'' | RoleModel \<Rightarrow> ''model'')"

definition conversationContext_of :: "ChatMessageHistoryItem list \<Rightarrow> string" where
  "conversationContext_of historyForTitle =
     (let ctx = join_newline
                  (map (\<lambda>item.
                          role_name (role item) @ '': ''
                            @ concat (map (\<lambda>p. case p of TextPart t \<Rightarrow> t | InlineData _ _ \<Rightarrow> [])
                                        (parts item)))
                     historyForTitle)
      in if length ctx > 1500 then ''...'' @ substring_from ctx (length ctx - 1500) else ctx)"

definition titlePrompt_of :: "string \<Rightarrow> string" where
  "titlePrompt_of conversationContext =
     ''Based on the following conversation snippet, generate a concise and descriptive title (strictly 3-7 words long) that summarizes the main topic or theme. The title should sound like a podcast episode title. Do not include any prefixes like ''
       @ [CHR 0x22] @ ''Title:'' @ [CHR 0x22]
       @ '' or quotation marks around the title. Just provide the title itself.''
       @ [CHR 0x0A, CHR 0x0A] @ ''Conversation:'' @ [CHR 0x0A] @ conversationContext
       @ [CHR 0x0A, CHR 0x0A] @ ''Title:''"

text \<open>\<open>toLowerCase\<close> on the code units below 256.\<close>

definition toLowerCase_char :: "char \<Rightarrow> char" where
  "toLowerCase_char c =
     (let n = (of_char c :: nat)
      in if (65 \<le> n \<and> n \<le> 90) \<or> (192 \<le> n \<and> n \<le> 222 \<and> n \<noteq> 215)
         then char_of (n + 32) else c)"

definition toLowerCase :: "string \<Rightarrow> string" where
  "toLowerCase s = map toLowerCase_char s"

definition is_quote :: "char \<Rightarrow> bool" where
  "is_quote c = (c = CHR 0x22 \<or> c = CHR 0x27)"

text \<open>
  The replacement of the pattern that matches one quote at the start or one quote at the
  end, applied globally: a leading quote goes, then a trailing one if any is left.
\<close>

definition strip_quotes :: "string \<Rightarrow> string" where
  "strip_quotes s =
     (let s1 = (case s of [] \<Rightarrow> [] | c # cs \<Rightarrow> if is_quote c then cs else s)
      in if s1 \<noteq> [] \<and> is_quote (last s1) then butlast s1 else s1)"

text \<open>
  What both gateways do with the text of a response; \<open>None\<close> is a text that is not a string.
\<close>

definition title_from_response :: "string option \<Rightarrow> ChatMessageContent list \<Rightarrow> string" where
  "title_from_response responseText chatMessages =
     (case responseText of
        None \<Rightarrow> generateFallbackTitle chatMessages
      | Some rt \<Rightarrow>
          if trim rt = [] then generateFallbackTitle chatMessages
          else
            (let c0 = strip_quotes (trim rt);
                 c1 = (if startsWith (toLowerCase c0) ''title:''
                       then trim (substring_from c0 (length ''title:'')) else c0);
                 wordsInTitle = split_space c1;
                 c2 = (if length wordsInTitle > 7
                       then join_space (take 7 wordsInTitle) @ ''...'' else c1)
             in if c2 = [] then generateFallbackTitle chatMessages else c2))"

subsection \<open>The gateway that calls the SDK\<close>

record env =
  API_KEY :: "string option"

datatype service_error = ApiKeyNotSet | ChatSessionNotActive

record chat_session =
  s_model :: string
  s_config :: chatConfig
  s_history :: "ChatMessageHistoryItem list"

text \<open>
  The title request; its configuration is the constant temperature 0.3 with at most 60
  output tokens.
\<close>

record gen_request =
  g_model :: string
  g_contents :: string

text \<open>The calls that the module makes on the SDK, in order: the effect of a function.\<close>

datatype sdk_call = NewGoogleGenAI string | ChatsCreate chat_session | GenerateContent gen_request

text \<open>
  How \<open>generateContent\<close> ends: it throws, or it returns a response with an optional block
  reason and a text that is a string or not.
\<close>

datatype gen_outcome = GenThrows | GenResponse "string option" "string option"

text \<open>The module variables \<open>ai\<close> (the key of the client once created) and \<open>chatSessionInstance\<close>.\<close>

record service_state =
  ai :: "string option"
  chatSessionInstance :: "chat_session option"

definition TITLE_GENERATION_MODEL_NAME :: string where
  "TITLE_GENERATION_MODEL_NAME = ''gemini-2.5-flash''"

definition initializeAI :: "env \<Rightarrow> service_state \<Rightarrow> service_error + (sdk_call list \<times> service_state)" where
  "initializeAI e st =
     (if \<not> truthy (API_KEY e) then Inl ApiKeyNotSet
      else if ai st = None
           then Inr ([NewGoogleGenAI (the (API_KEY e))], st\<lparr>ai := API_KEY e\<rparr>)
           else Inr ([], st))"

text \<open>
  \<open>generateChatTitleWithAI\<close>: the list may be null. The result is the thrown error, or the
  SDK calls made, the title and the module state.
\<close>

definition generateChatTitleWithAI ::
  "env \<Rightarrow> (gen_request \<Rightarrow> gen_outcome) \<Rightarrow> ChatMessageContent list option \<Rightarrow> string
     \<Rightarrow> service_state \<Rightarrow> service_error + (sdk_call list \<times> string \<times> service_state)" where
  "generateChatTitleWithAI e generateContent chatMessages initialWelcomeTextBase st =
     (case initializeAI e st of
        Inl err \<Rightarrow> Inl err
      | Inr (calls, st1) \<Rightarrow>
          (case chatMessages of
             None \<Rightarrow> Inr (calls, ''New Chat'', st1)
           | Some msgs \<Rightarrow>
               if msgs = [] then Inr (calls, ''New Chat'', st1)
               else
                 (let historyForTitle =
                        mapAppMessagesToGeminiHistoryForTitle msgs initialWelcomeTextBase
                  in if historyForTitle = [] then Inr (calls, generateFallbackTitle msgs, st1)
                     else
                       (let req = \<lparr>g_model = TITLE_GENERATION_MODEL_NAME,
                                   g_contents = titlePrompt_of (conversationContext_of historyForTitle)\<rparr>;
                            calls' = calls @ [GenerateContent req]
                        in (case generateContent req of
                              GenThrows \<Rightarrow> Inr (calls', generateFallbackTitle msgs, st1)
                            | GenResponse blockReason responseText \<Rightarrow>
                                if truthy blockReason
                                then Inr (calls', generateFallbackTitle msgs, st1)
                                else Inr (calls', title_from_response responseText msgs, st1))))))"

definition initializeChatSession ::
  "env \<Rightarrow> string \<Rightarrow> ChatMessageHistoryItem list option \<Rightarrow> int option \<Rightarrow> service_state
     \<Rightarrow> service_error + (sdk_call list \<times> chat_session \<times> service_state)" where
  "initializeChatSession e modelName history thinkingBudgetUiValue st =
     (case initializeAI e st of
        Inl err \<Rightarrow> Inl err
      | Inr (calls, st1) \<Rightarrow>
          (let friendlyModelName = getFriendlyModelName modelName;
               currentModelToUse = (if modelName \<in> set AVAILABLE_CHAT_MODELS then modelName
                                    else DEFAULT_CHAT_MODEL);
               chatConfig0 = \<lparr>systemInstruction = systemInstruction_for friendlyModelName,
                              thinkingConfig = None\<rparr>;
               chatConfig1 = (if currentModelToUse = ''gemini-2.5-flash''
                                 \<and> thinkingBudgetUiValue \<noteq> None
                              then chatConfig0\<lparr>thinkingConfig := thinkingBudgetUiValue\<rparr>
                              else chatConfig0);
               session = \<lparr>s_model = currentModelToUse, s_config = chatConfig1,
                          s_history = (case history of None \<Rightarrow> [] | Some h \<Rightarrow> h)\<rparr>
           in Inr (calls @ [ChatsCreate session], session,
                   st1\<lparr>chatSessionInstance := Some session\<rparr>)))"

definition resetChatSession :: "service_state \<Rightarrow> service_state" where
  "resetChatSession st = st\<lparr>chatSessionInstance := None\<rparr>"

text \<open>
  \<open>sendMessageToChatStream\<close> of this gateway: the session and the parts it sends them to.
\<close>

definition sendMessageToChatStream ::
  "string + Part list \<Rightarrow> service_state \<Rightarrow> service_error + (chat_session \<times> Part list)" where
  "sendMessageToChatStream message st =
     (case chatSessionInstance st of
        None \<Rightarrow> Inl ChatSessionNotActive
      | Some session \<Rightarrow>
          Inr (session, (case message of Inl str \<Rightarrow> [TextPart str] | Inr ps \<Rightarrow> ps)))"

subsection \<open>The gateway that posts to the proxy\<close>

text \<open>
  How the \<open>fetch\<close> of the title ends: it throws; the response is not ok; the body of an ok
  response is not JSON; or the body gives a \<open>text\<close> that is a string or not.
\<close>

datatype fetch_outcome = FetchThrows | FetchNotOk | FetchOkBadJson | FetchOk "string option"

text \<open>The result is the list of prompts posted and the title.\<close>

definition generateChatTitleWithAI_proxy ::
  "(string \<Rightarrow> fetch_outcome) \<Rightarrow> ChatMessageContent list option \<Rightarrow> string
     \<Rightarrow> string list \<times> string" where
  "generateChatTitleWithAI_proxy fetch chatMessages initialWelcomeTextBase =
     (case chatMessages of
        None \<Rightarrow> ([], ''New Chat'')
      | Some msgs \<Rightarrow>
          if msgs = [] then ([], ''New Chat'')
          else
            (let historyForTitle =
                   mapAppMessagesToGeminiHistoryForTitle msgs initialWelcomeTextBase
             in if historyForTitle = [] then ([], generateFallbackTitle msgs)
                else
                  (let titlePrompt = titlePrompt_of (conversationContext_of historyForTitle)
                   in (case fetch titlePrompt of
                         FetchThrows \<Rightarrow> ([titlePrompt], generateFallbackTitle msgs)
                       | FetchNotOk \<Rightarrow> ([titlePrompt], generateFallbackTitle msgs)
                       | FetchOkBadJson \<Rightarrow> ([titlePrompt], generateFallbackTitle msgs)
                       | FetchOk responseText \<Rightarrow>
                           ([titlePrompt], title_from_response responseText msgs)))))"

subsection \<open>Committing the title\<close>

text \<open>
  \<open>processTitleUpdateQueue\<close> as created in render \<open>r\<close>. \<open>gen\<close> is the imported
  \<open>generateChatTitleWithAI\<close> with the way its promise settles: \<open>Inl\<close> when it rejects.
\<close>

definition processTitleUpdateQueue ::
  "(ChatMessageContent list \<Rightarrow> string \<Rightarrow> service_error + string) \<Rightarrow> render
     \<Rightarrow> app_state \<Rightarrow> app_state" where
  "processTitleUpdateQueue gen r s =
     (case titleUpdateQueue s of
        None \<Rightarrow> s
      | Some job \<Rightarrow>
          (let chatIdForTitle = job_id job;
               msgs = messagesForContext job;
               s1 = s\<lparr>titleUpdateQueue := None\<rparr>
           in if Some chatIdForTitle \<noteq> r_currentChatId r \<and> \<not> isNew job then s1
              else
                (let hasUserMessage =
                       list_ex (\<lambda>m. sender m = User \<and> trim (msg_text m) \<noteq> []) msgs
                 in if \<not> hasUserMessage
                       \<and> (length msgs = 0
                          \<or> (length msgs = 1
                              \<and> startsWith (msg_text (hd msgs)) INITIAL_AI_WELCOME_TEXT_BASE))
                    then (if isNew job
                          then s1\<lparr>allChats :=
                                    map (\<lambda>c. if chat_id c = chatIdForTitle
                                             then c\<lparr>title := ''New Chat''\<rparr> else c) (allChats s1)\<rparr>
                          else s1)
                    else
                      (let s2 = s1\<lparr>isTitleLoading := True\<rparr>;
                           s3 = (case gen msgs INITIAL_AI_WELCOME_TEXT_BASE of
                                   Inl err \<Rightarrow> s2
                                 | Inr newTitle \<Rightarrow>
                                     s2\<lparr>allChats :=
                                          map (\<lambda>chat. if chat_id chat = chatIdForTitle
                                                      then chat\<lparr>title := newTitle,
                                                                aiMessagesSinceLastTitleUpdate := Some 0\<rparr>
                                                      else chat) (allChats s2)\<rparr>)
                       in s3\<lparr>isTitleLoading := False\<rparr>))))"

text \<open>
  The same function in the version of \<open>App\<close> that uses the SDK gateway: it does nothing
  when the API key is missing.
\<close>

definition processTitleUpdateQueue_keyed ::
  "env \<Rightarrow> (ChatMessageContent list \<Rightarrow> string \<Rightarrow> service_error + string) \<Rightarrow> render
     \<Rightarrow> app_state \<Rightarrow> app_state" where
  "processTitleUpdateQueue_keyed e gen r s =
     (if \<not> truthy (API_KEY e) then s else processTitleUpdateQueue gen r s)"

text \<open>The two title generators as \<open>processTitleUpdateQueue\<close> calls them.\<close>

definition title_via_proxy ::
  "(string \<Rightarrow> fetch_outcome) \<Rightarrow> ChatMessageContent list \<Rightarrow> string \<Rightarrow> service_error + string" where
  "title_via_proxy fetch msgs base = Inr (snd (generateChatTitleWithAI_proxy fetch (Some msgs) base))"

definition title_via_sdk ::
  "env \<Rightarrow> (gen_request \<Rightarrow> gen_outcome) \<Rightarrow> service_state \<Rightarrow> ChatMessageContent list \<Rightarrow> string
     \<Rightarrow> service_error + string" where
  "title_via_sdk e generateContent st msgs base =
     (case generateChatTitleWithAI e generateContent (Some msgs) base st of
        Inl err \<Rightarrow> Inl err
      | Inr (calls, newTitle, st1) \<Rightarrow> Inr newTitle)"

text \<open>The ways a title request fails: no usable text comes back.\<close>

definition gen_failed :: "gen_outcome \<Rightarrow> bool" where
  "gen_failed out =
     (case out of
        GenThrows \<Rightarrow> True
      | GenResponse blockReason responseText \<Rightarrow>
          truthy blockReason \<or> (case responseText of None \<Rightarrow> True | Some rt \<Rightarrow> trim rt = []))"

definition fetch_failed :: "fetch_outcome \<Rightarrow> bool" where
  "fetch_failed out =
     (case out of
        FetchThrows \<Rightarrow> True
      | FetchNotOk \<Rightarrow> True
      | FetchOkBadJson \<Rightarrow> True
      | FetchOk responseText \<Rightarrow> (case responseText of None \<Rightarrow> True | Some rt \<Rightarrow> trim rt = []))"

section \<open>The persistence adapter\<close>

text \<open>
  The browser storage: the stored items, and the two ways its operations throw. With
  \<open>accessDenied\<close> every operation throws; with \<open>quotaExceeded\<close> every \<open>setItem\<close> throws.
\<close>

datatype storage_error = SecurityError | QuotaExceededError | SyntaxError

record storage =
  items :: "string \<Rightarrow> string option"
  accessDenied :: bool
  quotaExceeded :: bool

definition getItem :: "storage \<Rightarrow> string \<Rightarrow> storage_error + string option" where
  "getItem st k = (if accessDenied st then Inl SecurityError else Inr (items st k))"

definition setItem :: "storage \<Rightarrow> string \<Rightarrow> string \<Rightarrow> storage_error + storage" where
  "setItem st k v =
     (if accessDenied st then Inl SecurityError
      else if quotaExceeded st then Inl QuotaExceededError
      else Inr (st\<lparr>items := (items st)(k \<mapsto> v)\<rparr>))"

definition removeItem :: "storage \<Rightarrow> string \<Rightarrow> storage_error + storage" where
  "removeItem st k =
     (if accessDenied st then Inl SecurityError
      else Inr (st\<lparr>items := (items st)(k := None)\<rparr>))"

definition ALL_CHATS_KEY :: string where
  "ALL_CHATS_KEY = ''neuramorphosis_allChats''"

definition ACTIVE_CHAT_ID_KEY :: string where
  "ACTIVE_CHAT_ID_KEY = ''neuramorphosis_activeChatId''"

definition CUSTOM_CSS_KEY :: string where
  "CUSTOM_CSS_KEY = ''neuramorphosis_customCSS''"

definition BASE_THEME_KEY :: string where
  "BASE_THEME_KEY = ''neuramorphosis_baseTheme''"

definition ACCENT_THEME_KEY :: string where
  "ACCENT_THEME_KEY = ''neuramorphosis_accentTheme''"

definition TARGET_LANGUAGE_KEY :: string where
  "TARGET_LANGUAGE_KEY = ''neuramorphosis_targetLanguage''"

definition THEME_KEY :: string where
  "THEME_KEY = ''neuramorphosis_theme''"

text \<open>A \<open>try\<close> block around a write: an error is logged and the storage stays as it was.\<close>

definition catch_write :: "storage \<Rightarrow> storage_error + storage \<Rightarrow> storage" where
  "catch_write st res = (case res of Inl err \<Rightarrow> st | Inr st' \<Rightarrow> st')"

text \<open>A \<open>try\<close> block around a read: an error is logged and the default is returned.\<close>

definition catch_read :: "'a \<Rightarrow> storage_error + 'a \<Rightarrow> 'a" where
  "catch_read d res = (case res of Inl err \<Rightarrow> d | Inr v \<Rightarrow> v)"

text \<open>
  \<open>JSON.stringify\<close> and \<open>JSON.parse\<close> on chat lists are parameters: \<open>parse\<close> gives \<open>None\<close>
  where \<open>JSON.parse\<close> throws a syntax error.
\<close>

definition saveChats :: "(StoredChat list \<Rightarrow> string) \<Rightarrow> StoredChat list \<Rightarrow> storage \<Rightarrow> storage" where
  "saveChats stringify chats st = catch_write st (setItem st ALL_CHATS_KEY (stringify chats))"

definition loadChats_try ::
  "(string \<Rightarrow> StoredChat list option) \<Rightarrow> storage \<Rightarrow> storage_error + StoredChat list" where
  "loadChats_try parse st =
     (case getItem st ALL_CHATS_KEY of
        Inl err \<Rightarrow> Inl err
      | Inr chatsJson \<Rightarrow>
          if truthy chatsJson
          then (case parse (the chatsJson) of None \<Rightarrow> Inl SyntaxError | Some chats \<Rightarrow> Inr chats)
          else Inr [])"

definition loadChats :: "(string \<Rightarrow> StoredChat list option) \<Rightarrow> storage \<Rightarrow> StoredChat list" where
  "loadChats parse st = catch_read [] (loadChats_try parse st)"

definition saveActiveChatId :: "string option \<Rightarrow> storage \<Rightarrow> storage" where
  "saveActiveChatId chatId st =
     catch_write st (if truthy chatId then setItem st ACTIVE_CHAT_ID_KEY (the chatId)
                     else removeItem st ACTIVE_CHAT_ID_KEY)"

definition loadActiveChatId :: "storage \<Rightarrow> string option" where
  "loadActiveChatId st = catch_read None (getItem st ACTIVE_CHAT_ID_KEY)"

definition saveCustomCSS :: "string \<Rightarrow> storage \<Rightarrow> storage" where
  "saveCustomCSS css st = catch_write st (setItem st CUSTOM_CSS_KEY css)"

definition loadCustomCSS :: "storage \<Rightarrow> string" where
  "loadCustomCSS st =
     catch_read [] (case getItem st CUSTOM_CSS_KEY of
                      Inl err \<Rightarrow> Inl err
                    | Inr css \<Rightarrow> Inr (or_else css []))"

definition saveBaseTheme :: "string \<Rightarrow> storage \<Rightarrow> storage" where
  "saveBaseTheme theme st = catch_write st (setItem st BASE_THEME_KEY theme)"

definition loadBaseTheme :: "storage \<Rightarrow> string option" where
  "loadBaseTheme st = catch_read None (getItem st BASE_THEME_KEY)"

definition saveAccentTheme :: "string \<Rightarrow> storage \<Rightarrow> storage" where
  "saveAccentTheme theme st = catch_write st (setItem st ACCENT_THEME_KEY theme)"

definition loadAccentTheme :: "storage \<Rightarrow> string option" where
  "loadAccentTheme st = catch_read None (getItem st ACCENT_THEME_KEY)"

definition saveTargetLanguage :: "string \<Rightarrow> storage \<Rightarrow> storage" where
  "saveTargetLanguage languageCode st = catch_write st (setItem st TARGET_LANGUAGE_KEY languageCode)"

definition loadTargetLanguage :: "storage \<Rightarrow> string option" where
  "loadTargetLanguage st = catch_read None (getItem st TARGET_LANGUAGE_KEY)"

text \<open>The single theme of the earlier adapter.\<close>

definition saveTheme :: "string \<Rightarrow> storage \<Rightarrow> storage" where
  "saveTheme theme st = catch_write st (setItem st THEME_KEY theme)"

definition loadTheme :: "storage \<Rightarrow> string option" where
  "loadTheme st = catch_read None (getItem st THEME_KEY)"

subsection \<open>The preferences of \<open>App\<close>\<close>

definition DEFAULT_TARGET_LANGUAGE :: string where
  "DEFAULT_TARGET_LANGUAGE = ''none''"

text \<open>The initial values of the six preference states when \<open>App\<close> mounts.\<close>

definition initial_preferences :: "storage \<Rightarrow> preferences" where
  "initial_preferences st =
     \<lparr>baseTheme = or_else (loadBaseTheme st) ''dark'',
      accentTheme = or_else (loadAccentTheme st) ''default'',
      customCSS = loadCustomCSS st,
      targetLanguage = or_else (loadTargetLanguage st) DEFAULT_TARGET_LANGUAGE,
      thinkingBudget = 0,
      currentChatModel = DEFAULT_CHAT_MODEL\<rparr>"

text \<open>
  Everything that \<open>App\<close> writes for its preferences: the two theme effects and the two
  setters that save.
\<close>

definition persist_preferences :: "preferences \<Rightarrow> storage \<Rightarrow> storage" where
  "persist_preferences p st =
     saveTargetLanguage (targetLanguage p)
       (saveCustomCSS (customCSS p)
          (saveAccentTheme (accentTheme p)
             (saveBaseTheme (baseTheme p) st)))"

definition empty_storage :: storage where
  "empty_storage = \<lparr>items = (\<lambda>k. None), accessDenied = False, quotaExceeded = False\<rparr>"

section \<open>Observations and example states\<close>

text \<open>The state while the stream is still open, after \<open>events\<close> have happened.\<close>

definition handleSendMessage_until ::
  "string \<Rightarrow> string \<Rightarrow> string \<Rightarrow> turn_event list \<Rightarrow> app_state \<Rightarrow> app_state" where
  "handleSendMessage_until now_user now_ai inputText events s =
     (case handleSendMessage_start now_user now_ai inputText s of
        None \<Rightarrow> s
      | Some (t, s1) \<Rightarrow> snd (turn_loop t events ([], s1)))"

text \<open>The text that an event adds to \<open>accumulatedRegularText\<close>.\<close>

definition event_text :: "turn_event \<Rightarrow> string" where
  "event_text e = (case e of Chunk c \<Rightarrow> chunk_text c | SwitchChat _ \<Rightarrow> [])"

text \<open>
  The updates that a turn made to the message with the given id: for every value written
  by \<open>setMessages\<close> since the state \<open>before\<close>, the text and the two flags of that message.
\<close>

definition message_updates ::
  "string \<Rightarrow> app_state \<Rightarrow> app_state \<Rightarrow> (string \<times> bool option \<times> bool option) list" where
  "message_updates mid before after =
     concat (map (\<lambda>ms. map (\<lambda>m. (msg_text m, isStreaming m, isError m))
                          (filter (\<lambda>m. msg_id m = mid) ms))
               (drop (length (setMessagesLog before)) (setMessagesLog after)))"

text \<open>
  The successive values of \<open>accumulatedRegularText\<close>, one for each chunk that has text.
\<close>

fun accumulated_prefixes :: "string \<Rightarrow> string option list \<Rightarrow> string list" where
  "accumulated_prefixes acc [] = []"
| "accumulated_prefixes acc (c # cs) =
     (if chunk_text c = [] then accumulated_prefixes acc cs
      else (acc @ chunk_text c) # accumulated_prefixes (acc @ chunk_text c) cs)"

definition streaming_off :: "(string \<times> bool option \<times> bool option) \<Rightarrow> bool" where
  "streaming_off u = (fst (snd u) = Some False)"

definition example_prefs :: preferences where
  "example_prefs =
     \<lparr>baseTheme = ''dark'', accentTheme = ''default'', customCSS = [], targetLanguage = ''none'',
      thinkingBudget = 3, currentChatModel = ''gemini-2.5-flash''\<rparr>"

definition example_chat_A :: StoredChat where
  "example_chat_A =
     \<lparr>chat_id = ''chat-A'', title = ''Roman holiday'', createdAt = ''2025-06-01T10:00:00.000Z'',
      chat_messages =
        [\<lparr>msg_id = ''user-100'', msg_text = ''Plan my trip to Rome'', sender = User,
          isStreaming = None, isError = None, thinkingDetails = None\<rparr>,
         \<lparr>msg_id = ''ai-101'', msg_text = ''Gladly.'', sender = AI,
          isStreaming = Some False, isError = None, thinkingDetails = None\<rparr>],
      aiMessagesSinceLastTitleUpdate = Some 1\<rparr>"

definition example_chat_B :: StoredChat where
  "example_chat_B =
     \<lparr>chat_id = ''chat-B'', title = ''New Chat'', createdAt = ''2025-06-02T10:00:00.000Z'',
      chat_messages =
        [\<lparr>msg_id = ''ai-welcome-200'', msg_text = createAppInitialWelcomeText DEFAULT_CHAT_MODEL,
          sender = AI, isStreaming = Some False, isError = None, thinkingDetails = None\<rparr>],
      aiMessagesSinceLastTitleUpdate = Some 0\<rparr>"

text \<open>Two stored chats; chat A is the active one and no turn is running.\<close>

definition example_app :: app_state where
  "example_app =
     \<lparr>messages = chat_messages example_chat_A, isLoading = False, isTitleLoading = False,
      error = None, isSidebarOpen = False, currentView = ChatView,
      textToSummarizeForEditor = None, currentChatId = Some ''chat-A'',
      allChats = [example_chat_A, example_chat_B], prefs = example_prefs,
      appInitialWelcomeTextRef = createAppInitialWelcomeText DEFAULT_CHAT_MODEL,
      titleUpdateQueue = None, setMessagesLog = []\<rparr>"

text \<open>Reading the result of a call of the SDK gateway.\<close>

definition calls_of :: "service_error + (sdk_call list \<times> 'a \<times> service_state) \<Rightarrow> sdk_call list" where
  "calls_of res = (case res of Inl err \<Rightarrow> [] | Inr (calls, v, st) \<Rightarrow> calls)"

definition value_of :: "service_error + (sdk_call list \<times> 'a \<times> service_state) \<Rightarrow> 'a option" where
  "value_of res = (case res of Inl err \<Rightarrow> None | Inr (calls, v, st) \<Rightarrow> Some v)"

text \<open>The module state after a call that started in \<open>st\<close>: a call that throws leaves it.\<close>

definition state_after ::
  "service_state \<Rightarrow> service_error + (sdk_call list \<times> 'a \<times> service_state) \<Rightarrow> service_state" where
  "state_after st res = (case res of Inl err \<Rightarrow> st | Inr (calls, v, st') \<Rightarrow> st')"

definition env_with_key :: env where
  "env_with_key = \<lparr>API_KEY = Some ''k-123''\<rparr>"

definition env_without_key :: env where
  "env_without_key = \<lparr>API_KEY = None\<rparr>"

definition fresh_service :: service_state where
  "fresh_service = \<lparr>ai = None, chatSessionInstance = None\<rparr>"

text \<open>A backend that is down, for each gateway.\<close>

definition generateContent_down :: "gen_request \<Rightarrow> gen_outcome" where
  "generateContent_down req = GenThrows"

definition fetch_down :: "string \<Rightarrow> fetch_outcome" where
  "fetch_down prompt = FetchThrows"

text \<open>A queued title job for chat A whose only message is the user's request.\<close>

definition example_title_state :: app_state where
  "example_title_state =
     example_app\<lparr>titleUpdateQueue :=
       Some \<lparr>job_id = ''chat-A'', isNew = False,
             messagesForContext =
               [\<lparr>msg_id = ''user-100'', msg_text = ''Plan my trip to Rome'', sender = User,
                 isStreaming = None, isError = None, thinkingDetails = None\<rparr>]\<rparr>\<rparr>"

text \<open>The same job for a user message with the given text.\<close>

definition example_title_state_for :: "string \<Rightarrow> app_state" where
  "example_title_state_for t =
     example_app\<lparr>titleUpdateQueue :=
       Some \<lparr>job_id = ''chat-A'', isNew = False,
             messagesForContext =
               [\<lparr>msg_id = ''user-100'', msg_text = t, sender = User,
                 isStreaming = None, isError = None, thinkingDetails = None\<rparr>]\<rparr>\<rparr>"

text \<open>
  The words of a text as the specification speaks of them, to compare with the pieces
  that the code cuts at single spaces: the maximal runs of characters that are not
  white space. The first argument is the word read so far.
\<close>

fun spec_words_from :: "string \<Rightarrow> string \<Rightarrow> string list" where
  "spec_words_from w [] = (if w = [] then [] else [w])"
| "spec_words_from w (c # cs) =
     (if is_js_space c
      then (if w = [] then spec_words_from [] cs else w # spec_words_from [] cs)
      else spec_words_from (w @ [c]) cs)"

definition spec_words :: "string \<Rightarrow> string list" where
  "spec_words t = spec_words_from [] t"

text \<open>The five words of the request, one on each line, and with two spaces after the first.\<close>

definition example_text_lines :: string where
  "example_text_lines =
     ''Plan'' @ CHR 0x0A # ''my'' @ CHR 0x0A # ''trip'' @ CHR 0x0A # ''to'' @ CHR 0x0A # ''Rome''"

definition example_text_two_spaces :: string where
  "example_text_two_spaces = ''Plan  my trip to Rome''"

text \<open>A storage that refuses every access, and one whose chat list is not JSON.\<close>

definition denied_storage :: storage where
  "denied_storage = \<lparr>items = (\<lambda>k. None), accessDenied = True, quotaExceeded = False\<rparr>"

definition broken_storage :: storage where
  "broken_storage =
     \<lparr>items = (\<lambda>k. if k = ALL_CHATS_KEY then Some ''{oops'' else None),
      accessDenied = False, quotaExceeded = False\<rparr>"

text \<open>A parser that accepts the empty array only.\<close>

definition example_parse :: "string \<Rightarrow> StoredChat list option" where
  "example_parse j = (if j = ''[]'' then Some [] else None)"

section \<open>The follow-up stream: detection of the replace command\<close>

lemma chunk_text_simps [simp]: "chunk_text None = []" "chunk_text (Some t) = t"
  by (simp_all add: chunk_text_def)

lemma startsWith_append_self: "startsWith (m @ b) m"
  by (simp add: startsWith_def)

text \<open>
  If the command does not occur in \<open>a\<close> followed by all but the last character of the
  command, then the first occurrence in \<open>a @ m @ b\<close> is the one right after \<open>a\<close>.
\<close>

lemma indexOf_first:
  assumes "m \<noteq> []"
  shows "\<not> includes_str (a @ butlast m) m \<Longrightarrow> indexOf (a @ m @ b) m = Some (length a)"
proof (induction a)
  case Nil
  have "startsWith (m @ b) m" by (rule startsWith_append_self)
  with assms show ?case by (cases m) (simp_all)
next
  case (Cons c a)
  from Cons.prems have ns: "\<not> startsWith ((c # a) @ butlast m) m"
    and ni: "\<not> includes_str (a @ butlast m) m"
    by (auto simp: includes_str_def split: if_splits)
  have len: "length m \<le> length ((c # a) @ butlast m)" using assms by simp
  have "(c # a) @ m @ b = ((c # a) @ butlast m) @ (last m # b)"
    using assms by simp
  then have "take (length m) ((c # a) @ m @ b) = take (length m) ((c # a) @ butlast m)"
    using len by (metis append_Nil2 diff_is_0_eq' take_0 take_append)
  with ns have "\<not> startsWith ((c # a) @ m @ b) m"
    by (simp add: startsWith_def)
  with Cons.IH[OF ni] show ?case by simp
qed

lemma followUp_loop_append:
  "followUp_loop (xs @ ys) ls = followUp_loop ys (followUp_loop xs ls)"
  by (induction xs arbitrary: ls) simp_all

lemma followUp_loop_normal:
  assumes "\<forall>c \<in> set pre. \<not> chunk_has_marker c"
    and "\<not> isReplacingSummaryRef s"
    and "followUpResponse s = currentFollowUpTextAccumulator l"
  shows "followUp_loop pre (l, s) =
           (l\<lparr>currentFollowUpTextAccumulator :=
                 currentFollowUpTextAccumulator l @ concat (map chunk_text pre)\<rparr>,
            s\<lparr>followUpResponse :=
                 currentFollowUpTextAccumulator l @ concat (map chunk_text pre)\<rparr>)"
  using assms
proof (induction pre arbitrary: l s)
  case Nil
  then show ?case by simp
next
  case (Cons c pre)
  then show ?case
    by (cases c) (simp_all add: followUp_chunk_def chunk_has_marker_def Let_def)
qed

lemma followUp_loop_replacing:
  assumes "isReplacingSummaryRef s"
  shows "followUp_loop post (l, s) =
           (l\<lparr>revisedSummaryAccumulator :=
                 revisedSummaryAccumulator l @ concat (map chunk_text post)\<rparr>,
            if concat (map chunk_text post) = [] then s
            else s\<lparr>displayText :=
                 revisedSummaryAccumulator l @ concat (map chunk_text post)\<rparr>)"
  using assms
proof (induction post arbitrary: l s)
  case Nil
  then show ?case by simp
next
  case (Cons c post)
  then show ?case
    by (cases c) (simp_all add: followUp_chunk_def Let_def)
qed

lemma followUp_chunk_marker:
  assumes "\<not> isReplacingSummaryRef s"
    and "\<not> includes_str (a @ butlast REPLACE_SUMMARY_COMMAND) REPLACE_SUMMARY_COMMAND"
  shows "followUp_chunk (Some (a @ REPLACE_SUMMARY_COMMAND @ b)) (l, s) =
           (l\<lparr>revisedSummaryAccumulator := revisedSummaryAccumulator l @ trimStart b\<rparr>,
            if trimStart b = []
            then s\<lparr>isReplacingSummaryRef := True, didFollowUpActAsReplacement := True\<rparr>
            else s\<lparr>isReplacingSummaryRef := True, didFollowUpActAsReplacement := True,
                   displayText := revisedSummaryAccumulator l @ trimStart b\<rparr>)"
proof -
  have ne: "REPLACE_SUMMARY_COMMAND \<noteq> []"
    by (simp add: REPLACE_SUMMARY_COMMAND_def)
  have ix: "indexOf (a @ REPLACE_SUMMARY_COMMAND @ b) REPLACE_SUMMARY_COMMAND = Some (length a)"
    by (rule indexOf_first[OF ne assms(2)])
  have inc: "includes_str (a @ REPLACE_SUMMARY_COMMAND @ b) REPLACE_SUMMARY_COMMAND"
    by (simp add: includes_str_def ix)
  have sub: "substring_from (a @ REPLACE_SUMMARY_COMMAND @ b)
               (length a + length REPLACE_SUMMARY_COMMAND) = b"
    by (simp add: substring_from_def)
  show ?thesis
    unfolding followUp_chunk_def
    using assms(1) ne
    by (simp add: inc ix sub Let_def)
qed

text \<open>
  C1, as the code has it. The command is found only inside one chunk. When the first chunk
  that contains it is \<open>a @ command @ b\<close>, with \<open>a\<close> the text before its first occurrence,
  a stream that ends normally leaves the editor in replacing mode; the replacement text
  and the displayed text are \<open>b\<close> without its leading white space followed by all later
  chunks, and the follow-up answer is the text of the chunks before.
\<close>

theorem followUp_marker_within_one_chunk:
  assumes ready: "followUp_ready s"
    and pre: "\<forall>c \<in> set pre. \<not> chunk_has_marker c"
    and first: "\<not> includes_str (a @ butlast REPLACE_SUMMARY_COMMAND) REPLACE_SUMMARY_COMMAND"
  shows "isReplacingSummaryRef
           (snd (handleAskFollowUp (pre @ Some (a @ REPLACE_SUMMARY_COMMAND @ b) # post) StreamDone s))
       \<and> revisedSummaryAccumulator
           (fst (handleAskFollowUp (pre @ Some (a @ REPLACE_SUMMARY_COMMAND @ b) # post) StreamDone s))
         = trimStart b @ concat (map chunk_text post)
       \<and> displayText
           (snd (handleAskFollowUp (pre @ Some (a @ REPLACE_SUMMARY_COMMAND @ b) # post) StreamDone s))
         = trimStart b @ concat (map chunk_text post)
       \<and> followUpResponse
           (snd (handleAskFollowUp (pre @ Some (a @ REPLACE_SUMMARY_COMMAND @ b) # post) StreamDone s))
         = concat (map chunk_text pre)"
proof -
  define l0 where "l0 = \<lparr>revisedSummaryAccumulator = [], currentFollowUpTextAccumulator = []\<rparr>"
  define s0 where "s0 = s\<lparr>isAskingFollowUp := True, followUpError := None, followUpResponse := [],
                       didFollowUpActAsReplacement := False, isReplacingSummaryRef := False\<rparr>"
  define P where "P = concat (map chunk_text pre)"
  define Q where "Q = concat (map chunk_text post)"
  define l1 where "l1 = l0\<lparr>currentFollowUpTextAccumulator := P\<rparr>"
  define s1 where "s1 = s0\<lparr>followUpResponse := P\<rparr>"
  have step1: "followUp_loop pre (l0, s0) = (l1, s1)"
    using followUp_loop_normal[OF pre, of s0 l0]
    by (simp add: l0_def s0_def l1_def s1_def P_def)
  have nr: "\<not> isReplacingSummaryRef s1" by (simp add: s1_def s0_def)
  note step2 = followUp_chunk_marker[OF nr first, of b l1]
  have loop: "followUp_loop (pre @ Some (a @ REPLACE_SUMMARY_COMMAND @ b) # post) (l0, s0)
      = followUp_loop post (followUp_chunk (Some (a @ REPLACE_SUMMARY_COMMAND @ b)) (l1, s1))"
    by (simp add: followUp_loop_append step1)
  have guard: "\<not> (\<not> aiInstance s \<or> trim (followUpQuestion s) = [] \<or> trim (displayText s) = []
            \<or> \<not> isSummaryComplete s)"
    using ready by (simp add: followUp_ready_def)
  show ?thesis
    unfolding handleAskFollowUp_def Let_def
    apply (simp only: guard if_False l0_def[symmetric] s0_def[symmetric] loop step2)
    apply (cases "trimStart b = []"; cases "Q = []")
    apply (simp_all add: followUp_loop_replacing Q_def[symmetric] l1_def l0_def s1_def s0_def P_def)
    done
qed

theorem followUp_marker_within_one_chunk_witness:
  "followUp_ready editor_example
   \<and> \<not> chunk_has_marker (Some ''answer: '')
   \<and> \<not> includes_str (''x'' @ butlast REPLACE_SUMMARY_COMMAND) REPLACE_SUMMARY_COMMAND
   \<and> isReplacingSummaryRef
       (snd (handleAskFollowUp
               ([Some ''answer: ''] @ Some (''x'' @ REPLACE_SUMMARY_COMMAND @ (CHR 0x0A # ''New body''))
                  # [Some '' text''])
               StreamDone editor_example))
   \<and> revisedSummaryAccumulator
       (fst (handleAskFollowUp
               ([Some ''answer: ''] @ Some (''x'' @ REPLACE_SUMMARY_COMMAND @ (CHR 0x0A # ''New body''))
                  # [Some '' text''])
               StreamDone editor_example))
     = ''New body text''"
proof -
  have r: "followUp_ready editor_example"
    by (simp add: followUp_ready_def editor_example_def trim_def trimEnd_def trimStart_def
        is_js_space_def)
  have p: "\<forall>c \<in> set [Some ''answer: '']. \<not> chunk_has_marker c"
    by (simp add: chunk_has_marker_def includes_str_def startsWith_def REPLACE_SUMMARY_COMMAND_def)
  have f: "\<not> includes_str (''x'' @ butlast REPLACE_SUMMARY_COMMAND) REPLACE_SUMMARY_COMMAND"
    by (simp add: includes_str_def startsWith_def REPLACE_SUMMARY_COMMAND_def)
  have t: "trimStart (CHR 0x0A # ''New body'') = ''New body''"
    by (simp add: trimStart_def is_js_space_def)
  from followUp_marker_within_one_chunk[OF r p f, of "CHR 0x0A # ''New body''" "[Some '' text'']"]
  show ?thesis using r p f by (simp add: t)
qed

text \<open>
  C1 as stated fails: with the command cut between two chunks the editor stays in normal
  mode and the whole text, command included, becomes the follow-up answer.
\<close>

theorem followUp_split_marker_counterexample:
  "\<not> (isReplacingSummaryRef
         (snd (handleAskFollowUp
                 [Some ''answer: [replace_summary_with_'', Some (''new_text]'' @ CHR 0x0A # ''New body'')]
                 StreamDone editor_example))
       \<and> revisedSummaryAccumulator
         (fst (handleAskFollowUp
                 [Some ''answer: [replace_summary_with_'', Some (''new_text]'' @ CHR 0x0A # ''New body'')]
                 StreamDone editor_example))
         = ''New body'')"
  by (simp add: handleAskFollowUp_def editor_example_def followUp_chunk_def includes_str_def
      startsWith_def REPLACE_SUMMARY_COMMAND_def trim_def trimEnd_def trimStart_def
      is_js_space_def Let_def)

section \<open>One chat turn: what the updates are and what is stored\<close>


lemma map_other_ids:
  "\<forall>m \<in> set xs. msg_id m \<noteq> a \<Longrightarrow> map (\<lambda>m. if msg_id m = a then f m else m) xs = xs"
  by (induction xs) simp_all

lemma filter_other_ids:
  "\<forall>m \<in> set xs. msg_id m \<noteq> a \<Longrightarrow> filter (\<lambda>m. msg_id m = a) xs = []"
  by (induction xs) simp_all

lemma scheduleTitleUpdate_keeps:
  "messages (scheduleTitleUpdate r c b s) = messages s"
  "setMessagesLog (scheduleTitleUpdate r c b s) = setMessagesLog s"
  "allChats (scheduleTitleUpdate r c b s) = allChats s"
  "prefs (scheduleTitleUpdate r c b s) = prefs s"
  by (simp_all add: scheduleTitleUpdate_def Let_def)

text \<open>What the synchronous part of a turn leaves behind.\<close>

lemma handleSendMessage_start_Some:
  assumes "trim inputText \<noteq> []" "\<not> isLoading s"
  obtains t s1 where
    "handleSendMessage_start now_user now_ai inputText s = Some (t, s1)"
    "aiResponseId t = ''ai-'' @ now_ai"
    "t_render t = render_of s"
    "updatedMessagesWithUser t =
       (if isEffectivelyNewChat s then [] else messages s)
         @ [\<lparr>msg_id = ''user-'' @ now_user, msg_text = inputText, sender = User,
             isStreaming = None, isError = None, thinkingDetails = None\<rparr>]"
    "messages s1 = updatedMessagesWithUser t
         @ [\<lparr>msg_id = ''ai-'' @ now_ai, msg_text = [], sender = AI, isStreaming = Some True,
             isError = None, thinkingDetails = thinkingDetailsForMessage t\<rparr>]"
    "setMessagesLog s1 = setMessagesLog s @ [updatedMessagesWithUser t, messages s1]"
    "allChats s1 = (if truthy (currentChatId s)
                    then map (\<lambda>chat. if Some (chat_id chat) = currentChatId s
                                      then chat\<lparr>chat_messages := updatedMessagesWithUser t\<rparr> else chat)
                           (allChats s)
                    else allChats s)"
    "prefs s1 = prefs s"
    "thinkingDetailsForMessage t = thinkingDetails_of (prefs s)"
proof -
  from assms have "\<exists>t s1. handleSendMessage_start now_user now_ai inputText s = Some (t, s1)"
    by (simp add: handleSendMessage_start_def Let_def)
  then obtain t s1 where st: "handleSendMessage_start now_user now_ai inputText s = Some (t, s1)"
    by blast
  from st assms have
    "aiResponseId t = ''ai-'' @ now_ai"
    "t_render t = render_of s"
    "updatedMessagesWithUser t =
       (if isEffectivelyNewChat s then [] else messages s)
         @ [\<lparr>msg_id = ''user-'' @ now_user, msg_text = inputText, sender = User,
             isStreaming = None, isError = None, thinkingDetails = None\<rparr>]"
    "messages s1 = updatedMessagesWithUser t
         @ [\<lparr>msg_id = ''ai-'' @ now_ai, msg_text = [], sender = AI, isStreaming = Some True,
             isError = None, thinkingDetails = thinkingDetailsForMessage t\<rparr>]"
    "setMessagesLog s1 = setMessagesLog s @ [updatedMessagesWithUser t, messages s1]"
    "allChats s1 = (if truthy (currentChatId s)
                    then map (\<lambda>chat. if Some (chat_id chat) = currentChatId s
                                      then chat\<lparr>chat_messages := updatedMessagesWithUser t\<rparr> else chat)
                           (allChats s)
                    else allChats s)"
    "prefs s1 = prefs s"
    "thinkingDetailsForMessage t = thinkingDetails_of (prefs s)"
    by (auto simp add: handleSendMessage_start_def Let_def setMessages_def scheduleTitleUpdate_keeps
        split: if_splits)
  with st that show thesis by blast
qed




lemma turn_finally_proj:
  "messages (turn_finally t acc s) =
     map (\<lambda>msg. if msg_id msg = aiResponseId t
                 then msg\<lparr>msg_text := acc, isStreaming := Some False\<rparr> else msg) (messages s)"
  "setMessagesLog (turn_finally t acc s) = setMessagesLog s @ [messages (turn_finally t acc s)]"
  "allChats (turn_finally t acc s) = allChats s"
  "error (turn_finally t acc s) = error s"
  "isLoading (turn_finally t acc s) = isLoading s"
  by (simp_all add: turn_finally_def setMessages_def)

lemma turn_complete_proj:
  "messages (turn_complete t acc s) =
     map (\<lambda>msg. if msg_id msg = aiResponseId t then finalAiMessage t acc else msg)
       (messages (turn_finally t acc s))"
  "setMessagesLog (turn_complete t acc s) =
     setMessagesLog s @ [messages (turn_finally t acc s), messages (turn_complete t acc s)]"
  "allChats (turn_complete t acc s) =
     (if truthy (r_currentChatId (t_render t))
      then map (\<lambda>chat. if Some (chat_id chat) = r_currentChatId (t_render t)
                        then chat\<lparr>chat_messages :=
                                    filter (\<lambda>m. msg_id m \<noteq> aiResponseId t) (updatedMessagesWithUser t)
                                    @ [finalAiMessage t acc],
                                  aiMessagesSinceLastTitleUpdate :=
                                    Some ((case aiMessagesSinceLastTitleUpdate chat of
                                             None \<Rightarrow> 0 | Some n \<Rightarrow> n) + 1)\<rparr>
                        else chat) (allChats s)
      else allChats s)"
  "isLoading (turn_complete t acc s) = False"
  unfolding turn_complete_def
  by (simp_all add: Let_def setMessages_def scheduleTitleUpdate_keeps turn_finally_proj)

lemma turn_catch_proj:
  "messages (turn_catch t e acc s) =
     map (\<lambda>msg. if msg_id msg = aiResponseId t
                 then msg\<lparr>msg_text := acc, isStreaming := Some False\<rparr> else msg)
       (map (\<lambda>msg. if msg_id msg = aiResponseId t
                 then msg\<lparr>msg_text := ''Error: '' @ or_else e ''Failed to get response from AI.'',
                          isError := Some True, isStreaming := Some False\<rparr> else msg) (messages s))"
  "setMessagesLog (turn_catch t e acc s) =
     setMessagesLog s @
       [map (\<lambda>msg. if msg_id msg = aiResponseId t
                 then msg\<lparr>msg_text := ''Error: '' @ or_else e ''Failed to get response from AI.'',
                          isError := Some True, isStreaming := Some False\<rparr> else msg) (messages s),
        messages (turn_catch t e acc s)]"
  "allChats (turn_catch t e acc s) = allChats s"
  "error (turn_catch t e acc s) = Some (''Error: '' @ or_else e ''Failed to get response from AI.'')"
  "isLoading (turn_catch t e acc s) = False"
  unfolding turn_catch_def
  by (simp_all add: Let_def setMessages_def turn_finally_proj)


lemma turn_step_chunk:
  assumes "messages s = base @ [am]" and "msg_id am = aiResponseId t"
    and "\<forall>m \<in> set base. msg_id m \<noteq> aiResponseId t"
  shows "turn_step t (Chunk c) (acc, s) =
           (if chunk_text c = [] then (acc, s)
            else (acc @ chunk_text c,
                  s\<lparr>messages := base @ [am\<lparr>msg_text := acc @ chunk_text c\<rparr>],
                    setMessagesLog := setMessagesLog s
                                        @ [base @ [am\<lparr>msg_text := acc @ chunk_text c\<rparr>]]\<rparr>))"
  using assms
  by (cases c) (simp_all add: turn_step_def setMessages_def Let_def map_other_ids)

lemma turn_loop_chunks:
  assumes "messages s = base @ [am]" and "msg_id am = aiResponseId t"
    and "\<forall>m \<in> set base. msg_id m \<noteq> aiResponseId t"
  shows "fst (turn_loop t (map Chunk cs) (acc, s)) = acc @ concat (map chunk_text cs)
       \<and> (\<exists>x. messages (snd (turn_loop t (map Chunk cs) (acc, s))) = base @ [am\<lparr>msg_text := x\<rparr>])
       \<and> setMessagesLog (snd (turn_loop t (map Chunk cs) (acc, s)))
           = setMessagesLog s @ map (\<lambda>p. base @ [am\<lparr>msg_text := p\<rparr>]) (accumulated_prefixes acc cs)
       \<and> allChats (snd (turn_loop t (map Chunk cs) (acc, s))) = allChats s"
  using assms
proof (induction cs arbitrary: acc s am)
  case Nil
  have "am = am\<lparr>msg_text := msg_text am\<rparr>" by simp
  with Nil show ?case by (metis append_Nil2 fst_conv list.simps(8) concat.simps(1) snd_conv turn_loop.simps(1) accumulated_prefixes.simps(1))
next
  case (Cons c cs)
  show ?case
  proof (cases "chunk_text c = []")
    case True
    then have "turn_step t (Chunk c) (acc, s) = (acc, s)"
      using turn_step_chunk[OF Cons.prems] by simp
    with True Cons.IH[OF Cons.prems, of acc] show ?thesis by simp
  next
    case False
    define am1 where "am1 = am\<lparr>msg_text := acc @ chunk_text c\<rparr>"
    define s1 where "s1 = s\<lparr>messages := base @ [am1],
                           setMessagesLog := setMessagesLog s @ [base @ [am1]]\<rparr>"
    have step: "turn_step t (Chunk c) (acc, s) = (acc @ chunk_text c, s1)"
      using turn_step_chunk[OF Cons.prems] False by (simp add: s1_def am1_def)
    have p1: "messages s1 = base @ [am1]" by (simp add: s1_def)
    have p2: "msg_id am1 = aiResponseId t" using Cons.prems(2) by (simp add: am1_def)
    have upd: "\<And>x. am1\<lparr>msg_text := x\<rparr> = am\<lparr>msg_text := x\<rparr>" by (simp add: am1_def)
    from Cons.IH[OF p1 p2 Cons.prems(3), of "acc @ chunk_text c"] False
    show ?thesis
      by (simp add: step upd) (simp add: s1_def am1_def)
  qed
qed


lemma views_of_updates:
  assumes "\<forall>m \<in> set base. msg_id m \<noteq> a" and "msg_id am = a"
  shows "concat (map (\<lambda>ms. map (\<lambda>m. (msg_text m, isStreaming m, isError m))
                              (filter (\<lambda>m. msg_id m = a) ms))
                  (map (\<lambda>p. base @ [am\<lparr>msg_text := p\<rparr>]) ps))
         = map (\<lambda>p. (p, isStreaming am, isError am)) ps"
  using assms by (induction ps) (simp_all add: filter_other_ids)

text \<open>
  The state of a turn when its stream ends, after chunks only: the list is the messages of
  the turn followed by the assistant message, and the log holds one entry per chunk that
  has text.
\<close>

lemma turn_before_end:
  assumes "trim inputText \<noteq> []" and "\<not> isLoading s"
    and fresh: "\<forall>m \<in> set (messages s). msg_id m \<noteq> ''ai-'' @ now_ai"
  obtains t s1 s2 U am x where
    "handleSendMessage_start now_user now_ai inputText s = Some (t, s1)"
    "turn_loop t (map Chunk cs) ([], s1) = (concat (map chunk_text cs), s2)"
    "aiResponseId t = ''ai-'' @ now_ai"
    "am = \<lparr>msg_id = ''ai-'' @ now_ai, msg_text = [], sender = AI, isStreaming = Some True,
           isError = None, thinkingDetails = thinkingDetailsForMessage t\<rparr>"
    "\<forall>m \<in> set U. msg_id m \<noteq> ''ai-'' @ now_ai"
    "messages s2 = U @ [am\<lparr>msg_text := x\<rparr>]"
    "setMessagesLog s2 = setMessagesLog s @ [U, U @ [am]]
        @ map (\<lambda>p. U @ [am\<lparr>msg_text := p\<rparr>]) (accumulated_prefixes [] cs)"
proof -
  obtain t s1 where
    st: "handleSendMessage_start now_user now_ai inputText s = Some (t, s1)"
    and aid_t: "aiResponseId t = ''ai-'' @ now_ai"
    and "t_render t = render_of s"
    and upd: "updatedMessagesWithUser t =
       (if isEffectivelyNewChat s then [] else messages s)
         @ [\<lparr>msg_id = ''user-'' @ now_user, msg_text = inputText, sender = User,
             isStreaming = None, isError = None, thinkingDetails = None\<rparr>]"
    and msgs: "messages s1 = updatedMessagesWithUser t
         @ [\<lparr>msg_id = ''ai-'' @ now_ai, msg_text = [], sender = AI, isStreaming = Some True,
             isError = None, thinkingDetails = thinkingDetailsForMessage t\<rparr>]"
    and log: "setMessagesLog s1 = setMessagesLog s @ [updatedMessagesWithUser t, messages s1]"
    and "allChats s1 = (if truthy (currentChatId s)
                    then map (\<lambda>chat. if Some (chat_id chat) = currentChatId s
                                      then chat\<lparr>chat_messages := updatedMessagesWithUser t\<rparr> else chat)
                           (allChats s)
                    else allChats s)"
    and "prefs s1 = prefs s"
    and "thinkingDetailsForMessage t = thinkingDetails_of (prefs s)"
    using assms(1,2) by (rule handleSendMessage_start_Some)
  define U where "U = updatedMessagesWithUser t"
  define am where "am = \<lparr>msg_id = ''ai-'' @ now_ai, msg_text = [], sender = AI,
             isStreaming = Some True, isError = None,
             thinkingDetails = thinkingDetailsForMessage t\<rparr>"
  have other: "\<forall>m \<in> set U. msg_id m \<noteq> ''ai-'' @ now_ai"
    using fresh by (simp add: U_def upd)
  have other_t: "\<forall>m \<in> set U. msg_id m \<noteq> aiResponseId t"
    using other by (simp add: aid_t)
  have m1: "messages s1 = U @ [am]" by (simp add: msgs U_def am_def)
  have am_id: "msg_id am = aiResponseId t" by (simp add: am_def aid_t)
  define r where "r = turn_loop t (map Chunk cs) ([], s1)"
  from turn_loop_chunks[OF m1 am_id other_t, of cs "[]"]
  obtain x where acc: "fst r = concat (map chunk_text cs)"
    and rm: "messages (snd r) = U @ [am\<lparr>msg_text := x\<rparr>]"
    and rl: "setMessagesLog (snd r)
               = setMessagesLog s1 @ map (\<lambda>p. U @ [am\<lparr>msg_text := p\<rparr>]) (accumulated_prefixes [] cs)"
    by (auto simp: r_def)
  have loop: "turn_loop t (map Chunk cs) ([], s1) = (concat (map chunk_text cs), snd r)"
    using acc by (simp add: r_def prod_eq_iff)
  have lg: "setMessagesLog (snd r) = setMessagesLog s @ [U, U @ [am]]
        @ map (\<lambda>p. U @ [am\<lparr>msg_text := p\<rparr>]) (accumulated_prefixes [] cs)"
    by (simp add: rl log m1 U_def)
  from st loop aid_t am_def other rm lg show thesis by (rule that)
qed

text \<open>Reading the updates of the assistant message off such a log.\<close>

lemma updates_of_log:
  assumes other: "\<forall>m \<in> set U. msg_id m \<noteq> aid"
    and ids: "msg_id am = aid" "msg_id f1 = aid" "msg_id f2 = aid"
    and log: "setMessagesLog fin = setMessagesLog s @ [U, U @ [am]]
                @ map (\<lambda>p. U @ [am\<lparr>msg_text := p\<rparr>]) ps @ [U @ [f1], U @ [f2]]"
  shows "message_updates aid s fin
         = (msg_text am, isStreaming am, isError am)
           # map (\<lambda>p. (p, isStreaming am, isError am)) ps
           @ [(msg_text f1, isStreaming f1, isError f1), (msg_text f2, isStreaming f2, isError f2)]"
proof -
  define V where "V = (\<lambda>ms :: ChatMessageContent list.
                         map (\<lambda>m. (msg_text m, isStreaming m, isError m))
                           (filter (\<lambda>m. msg_id m = aid) ms))"
  define G where "G = (\<lambda>p. U @ [am\<lparr>msg_text := p\<rparr>])"
  have vU: "V U = []" by (simp add: V_def filter_other_ids[OF other])
  have vA: "V (U @ [am]) = [(msg_text am, isStreaming am, isError am)]"
    by (simp add: V_def filter_other_ids[OF other] ids)
  have vF: "V (U @ [f1]) = [(msg_text f1, isStreaming f1, isError f1)]"
    "V (U @ [f2]) = [(msg_text f2, isStreaming f2, isError f2)]"
    by (simp_all add: V_def filter_other_ids[OF other] ids)
  have vG: "concat (map V (map G ps)) = map (\<lambda>p. (p, isStreaming am, isError am)) ps"
    unfolding V_def G_def using views_of_updates[OF other ids(1), of ps] by simp
  have dr: "drop (length (setMessagesLog s)) (setMessagesLog fin)
         = [U, U @ [am]] @ map G ps @ [U @ [f1], U @ [f2]]"
    by (simp add: log G_def)
  have "message_updates aid s fin
         = concat (map V ([U, U @ [am]] @ map G ps @ [U @ [f1], U @ [f2]]))"
    by (simp only: message_updates_def V_def dr)
  also have "\<dots> = V U @ V (U @ [am]) @ concat (map V (map G ps)) @ V (U @ [f1]) @ V (U @ [f2])"
    by (simp del: map_map)
  also have "\<dots> = (msg_text am, isStreaming am, isError am)
           # map (\<lambda>p. (p, isStreaming am, isError am)) ps
           @ [(msg_text f1, isStreaming f1, isError f1), (msg_text f2, isStreaming f2, isError f2)]"
    by (simp only: vU vA vF vG) simp
  finally show ?thesis .
qed

text \<open>A turn whose stream ends normally.\<close>

lemma turn_updates_normal:
  assumes "trim inputText \<noteq> []" and "\<not> isLoading s"
    and fresh: "\<forall>m \<in> set (messages s). msg_id m \<noteq> ''ai-'' @ now_ai"
  shows "message_updates (''ai-'' @ now_ai) s
           (handleSendMessage now_user now_ai inputText (map Chunk cs) StreamDone s)
         = ([], Some True, None)
           # map (\<lambda>p. (p, Some True, None)) (accumulated_prefixes [] cs)
           @ [(concat (map chunk_text cs), Some False, None),
              (concat (map chunk_text cs), Some False, None)]
       \<and> msg_text (last (messages
           (handleSendMessage now_user now_ai inputText (map Chunk cs) StreamDone s)))
         = concat (map chunk_text cs)
       \<and> isStreaming (last (messages
           (handleSendMessage now_user now_ai inputText (map Chunk cs) StreamDone s)))
         = Some False"
proof -
  define full where "full = concat (map chunk_text cs)"
  obtain t s1 s2 U am x where
    st: "handleSendMessage_start now_user now_ai inputText s = Some (t, s1)"
    and loop: "turn_loop t (map Chunk cs) ([], s1) = (full, s2)"
    and aid: "aiResponseId t = ''ai-'' @ now_ai"
    and am: "am = \<lparr>msg_id = ''ai-'' @ now_ai, msg_text = [], sender = AI, isStreaming = Some True,
           isError = None, thinkingDetails = thinkingDetailsForMessage t\<rparr>"
    and other: "\<forall>m \<in> set U. msg_id m \<noteq> ''ai-'' @ now_ai"
    and m2: "messages s2 = U @ [am\<lparr>msg_text := x\<rparr>]"
    and l2: "setMessagesLog s2 = setMessagesLog s @ [U, U @ [am]]
        @ map (\<lambda>p. U @ [am\<lparr>msg_text := p\<rparr>]) (accumulated_prefixes [] cs)"
    unfolding full_def using assms by (rule turn_before_end)
  define fin where "fin = turn_complete t full s2"
  define f where "f = am\<lparr>msg_text := full, isStreaming := Some False\<rparr>"
  have hs: "handleSendMessage now_user now_ai inputText (map Chunk cs) StreamDone s = fin"
    by (simp add: handleSendMessage_def st loop turn_end_def fin_def)
  have mf: "messages (turn_finally t full s2) = U @ [f]"
    using other by (simp add: turn_finally_proj m2 map_other_ids aid am f_def)
  have fa: "finalAiMessage t full = f"
    by (simp add: finalAiMessage_def am f_def aid)
  have mc: "messages fin = U @ [f]"
    using other by (simp add: fin_def turn_complete_proj mf map_other_ids fa aid)
  have lg: "setMessagesLog fin = setMessagesLog s @ [U, U @ [am]]
         @ map (\<lambda>p. U @ [am\<lparr>msg_text := p\<rparr>]) (accumulated_prefixes [] cs) @ [U @ [f], U @ [f]]"
    using mc mf by (simp add: fin_def turn_complete_proj(2) l2)
  have ids: "msg_id am = ''ai-'' @ now_ai" "msg_id f = ''ai-'' @ now_ai"
    by (simp_all add: am f_def)
  have "message_updates (''ai-'' @ now_ai) s fin
         = ([], Some True, None)
           # map (\<lambda>p. (p, Some True, None)) (accumulated_prefixes [] cs)
           @ [(full, Some False, None), (full, Some False, None)]"
    using updates_of_log[OF other ids(1) ids(2) ids(2) lg] by (simp add: am f_def)
  moreover have "msg_text (last (messages fin)) = full"
    and "isStreaming (last (messages fin)) = Some False"
    by (simp_all add: mc f_def)
  ultimately show ?thesis
    unfolding hs full_def[symmetric] by simp
qed

text \<open>
  A turn whose stream throws: the \<open>catch\<close> block writes the error text, then the \<open>finally\<close>
  block writes the accumulated text over it.
\<close>

lemma turn_updates_error:
  assumes "trim inputText \<noteq> []" and "\<not> isLoading s"
    and fresh: "\<forall>m \<in> set (messages s). msg_id m \<noteq> ''ai-'' @ now_ai"
  shows "message_updates (''ai-'' @ now_ai) s
           (handleSendMessage now_user now_ai inputText (map Chunk cs) (StreamThrows e) s)
         = ([], Some True, None)
           # map (\<lambda>p. (p, Some True, None)) (accumulated_prefixes [] cs)
           @ [(''Error: '' @ or_else e ''Failed to get response from AI.'', Some False, Some True),
              (concat (map chunk_text cs), Some False, Some True)]
       \<and> msg_text (last (messages
           (handleSendMessage now_user now_ai inputText (map Chunk cs) (StreamThrows e) s)))
         = concat (map chunk_text cs)
       \<and> isError (last (messages
           (handleSendMessage now_user now_ai inputText (map Chunk cs) (StreamThrows e) s)))
         = Some True
       \<and> isStreaming (last (messages
           (handleSendMessage now_user now_ai inputText (map Chunk cs) (StreamThrows e) s)))
         = Some False
       \<and> error (handleSendMessage now_user now_ai inputText (map Chunk cs) (StreamThrows e) s)
         = Some (''Error: '' @ or_else e ''Failed to get response from AI.'')
       \<and> isLoading (handleSendMessage now_user now_ai inputText (map Chunk cs) (StreamThrows e) s)
         = False"
proof -
  define full where "full = concat (map chunk_text cs)"
  define em where "em = ''Error: '' @ or_else e ''Failed to get response from AI.''"
  obtain t s1 s2 U am x where
    st: "handleSendMessage_start now_user now_ai inputText s = Some (t, s1)"
    and loop: "turn_loop t (map Chunk cs) ([], s1) = (full, s2)"
    and aid: "aiResponseId t = ''ai-'' @ now_ai"
    and am: "am = \<lparr>msg_id = ''ai-'' @ now_ai, msg_text = [], sender = AI, isStreaming = Some True,
           isError = None, thinkingDetails = thinkingDetailsForMessage t\<rparr>"
    and other: "\<forall>m \<in> set U. msg_id m \<noteq> ''ai-'' @ now_ai"
    and m2: "messages s2 = U @ [am\<lparr>msg_text := x\<rparr>]"
    and l2: "setMessagesLog s2 = setMessagesLog s @ [U, U @ [am]]
        @ map (\<lambda>p. U @ [am\<lparr>msg_text := p\<rparr>]) (accumulated_prefixes [] cs)"
    unfolding full_def using assms by (rule turn_before_end)
  define fin where "fin = turn_catch t e full s2"
  define f1 where "f1 = am\<lparr>msg_text := em, isError := Some True, isStreaming := Some False\<rparr>"
  define f2 where "f2 = am\<lparr>msg_text := full, isError := Some True, isStreaming := Some False\<rparr>"
  have hs: "handleSendMessage now_user now_ai inputText (map Chunk cs) (StreamThrows e) s = fin"
    by (simp add: handleSendMessage_def st loop turn_end_def fin_def)
  have mc: "messages fin = U @ [f2]"
    using other by (simp add: fin_def turn_catch_proj m2 map_other_ids aid am f2_def)
  have me: "map (\<lambda>msg. if msg_id msg = aiResponseId t
                 then msg\<lparr>msg_text := ''Error: '' @ or_else e ''Failed to get response from AI.'',
                          isError := Some True, isStreaming := Some False\<rparr> else msg) (messages s2)
            = U @ [f1]"
    using other by (simp add: m2 map_other_ids aid am f1_def em_def)
  have lg: "setMessagesLog fin = setMessagesLog s @ [U, U @ [am]]
         @ map (\<lambda>p. U @ [am\<lparr>msg_text := p\<rparr>]) (accumulated_prefixes [] cs) @ [U @ [f1], U @ [f2]]"
    using mc by (simp add: fin_def turn_catch_proj(2) l2 me)
  have ids: "msg_id am = ''ai-'' @ now_ai" "msg_id f1 = ''ai-'' @ now_ai"
    "msg_id f2 = ''ai-'' @ now_ai"
    by (simp_all add: am f1_def f2_def)
  have "message_updates (''ai-'' @ now_ai) s fin
         = ([], Some True, None)
           # map (\<lambda>p. (p, Some True, None)) (accumulated_prefixes [] cs)
           @ [(em, Some False, Some True), (full, Some False, Some True)]"
    using updates_of_log[OF other ids lg] by (simp add: am f1_def f2_def)
  moreover have "msg_text (last (messages fin)) = full"
    and "isError (last (messages fin)) = Some True"
    and "isStreaming (last (messages fin)) = Some False"
    by (simp_all add: mc f2_def)
  moreover have "error fin = Some em" and "isLoading fin = False"
    by (simp_all add: fin_def turn_catch_proj em_def)
  ultimately show ?thesis
    unfolding hs full_def[symmetric] em_def[symmetric] by simp
qed

lemma switchChat_allChats: "allChats (switchChat c s) = allChats s"
  by (simp add: switchChat_def setMessages_def Let_def split: option.splits)

lemma turn_step_store:
  "allChats (snd (turn_step t e (acc, s))) = allChats s"
  "fst (turn_step t e (acc, s)) = acc @ event_text e"
  by (cases e; cases "case e of Chunk c \<Rightarrow> c | _ \<Rightarrow> None";
      simp add: turn_step_def event_text_def setMessages_def switchChat_allChats Let_def)+

lemma turn_loop_store:
  "allChats (snd (turn_loop t evs (acc, s))) = allChats s
   \<and> fst (turn_loop t evs (acc, s)) = acc @ concat (map event_text evs)"
proof (induction evs arbitrary: acc s)
  case Nil
  then show ?case by simp
next
  case (Cons e evs)
  obtain acc1 s1 where step: "turn_step t e (acc, s) = (acc1, s1)"
    by (cases "turn_step t e (acc, s)")
  from turn_step_store[of t e acc s] step
  have "allChats s1 = allChats s" "acc1 = acc @ event_text e" by simp_all
  with Cons.IH[of acc1 s1] step show ?case by simp
qed


lemma map_if_cong_chats:
  assumes "\<And>chat. chat \<in> set L \<Longrightarrow> P chat \<Longrightarrow> f chat = g chat"
  shows "map (\<lambda>chat. if P chat then f chat else chat) L
       = map (\<lambda>chat. if P chat then g chat else chat) L"
  using assms by (induction L) simp_all

lemma chat_messages_after_store:
  "chat \<in> set (map (\<lambda>c. if chat_id c = A then c\<lparr>chat_messages := U\<rparr> else c) L)
     \<Longrightarrow> chat_id chat = A \<Longrightarrow> chat_messages chat = U"
proof (induction L)
  case Nil
  then show ?case by simp
next
  case (Cons c L)
  show ?case
  proof (cases "chat = (if chat_id c = A then c\<lparr>chat_messages := U\<rparr> else c)")
    case True
    with Cons.prems(2) show ?thesis by (cases "chat_id c = A") simp_all
  next
    case False
    with Cons.prems have "chat \<in> set (map (\<lambda>c. if chat_id c = A then c\<lparr>chat_messages := U\<rparr> else c) L)"
      by simp
    then show ?thesis using Cons.prems(2) by (rule Cons.IH)
  qed
qed

lemma turn_store:
  assumes inp: "trim inputText \<noteq> []" and idle: "\<not> isLoading s"
    and active: "currentChatId s = Some A" and A: "A \<noteq> []"
  shows "allChats (handleSendMessage_until now_user now_ai inputText (pre @ SwitchChat B # post) s)
           = allChats (handleSendMessage_until now_user now_ai inputText (pre @ [SwitchChat B]) s)
       \<and> allChats (handleSendMessage now_user now_ai inputText (pre @ SwitchChat B # post)
                     (StreamThrows e) s)
           = allChats (handleSendMessage_until now_user now_ai inputText (pre @ [SwitchChat B]) s)
       \<and> allChats (handleSendMessage now_user now_ai inputText (pre @ SwitchChat B # post)
                     StreamDone s)
           = map (\<lambda>chat. if chat_id chat = A
                         then chat\<lparr>chat_messages :=
                                     filter (\<lambda>m. msg_id m \<noteq> ''ai-'' @ now_ai) (chat_messages chat)
                                     @ [\<lparr>msg_id = ''ai-'' @ now_ai,
                                         msg_text = concat (map event_text (pre @ post)),
                                         sender = AI, isStreaming = Some False, isError = None,
                                         thinkingDetails = thinkingDetails_of (prefs s)\<rparr>],
                                   aiMessagesSinceLastTitleUpdate :=
                                     Some ((case aiMessagesSinceLastTitleUpdate chat of
                                              None \<Rightarrow> 0 | Some n \<Rightarrow> n) + 1)\<rparr>
                         else chat)
               (allChats (handleSendMessage_until now_user now_ai inputText (pre @ [SwitchChat B]) s))"
proof -
  obtain t s1 where
    st: "handleSendMessage_start now_user now_ai inputText s = Some (t, s1)"
    and aid: "aiResponseId t = ''ai-'' @ now_ai"
    and rend: "t_render t = render_of s"
    and upd: "updatedMessagesWithUser t =
       (if isEffectivelyNewChat s then [] else messages s)
         @ [\<lparr>msg_id = ''user-'' @ now_user, msg_text = inputText, sender = User,
             isStreaming = None, isError = None, thinkingDetails = None\<rparr>]"
    and msgs: "messages s1 = updatedMessagesWithUser t
         @ [\<lparr>msg_id = ''ai-'' @ now_ai, msg_text = [], sender = AI, isStreaming = Some True,
             isError = None, thinkingDetails = thinkingDetailsForMessage t\<rparr>]"
    and log: "setMessagesLog s1 = setMessagesLog s @ [updatedMessagesWithUser t, messages s1]"
    and chats1: "allChats s1 = (if truthy (currentChatId s)
                    then map (\<lambda>chat. if Some (chat_id chat) = currentChatId s
                                      then chat\<lparr>chat_messages := updatedMessagesWithUser t\<rparr> else chat)
                           (allChats s)
                    else allChats s)"
    and "prefs s1 = prefs s"
    and td: "thinkingDetailsForMessage t = thinkingDetails_of (prefs s)"
    using inp idle by (rule handleSendMessage_start_Some)
  define evs where "evs = pre @ SwitchChat B # post"
  define U where "U = updatedMessagesWithUser t"
  define full where "full = concat (map event_text (pre @ post))"
  define fm where "fm = \<lparr>msg_id = ''ai-'' @ now_ai, msg_text = full,
                          sender = AI, isStreaming = Some False, isError = None,
                          thinkingDetails = thinkingDetails_of (prefs s)\<rparr>"
  have cid: "r_currentChatId (t_render t) = Some A" "truthy (Some A)"
    using active A by (simp_all add: rend render_of_def truthy_def)
  have sw: "allChats (handleSendMessage_until now_user now_ai inputText (pre @ [SwitchChat B]) s)
              = allChats s1"
    by (simp add: handleSendMessage_until_def st turn_loop_store)
  have c1: "allChats s1 = map (\<lambda>chat. if chat_id chat = A then chat\<lparr>chat_messages := U\<rparr> else chat)
                            (allChats s)"
    using active A by (simp add: chats1 truthy_def U_def)
  have until: "allChats (handleSendMessage_until now_user now_ai inputText evs s) = allChats s1"
    by (simp add: handleSendMessage_until_def st turn_loop_store)
  obtain acc s2 where loop: "turn_loop t evs ([], s1) = (acc, s2)"
    by (cases "turn_loop t evs ([], s1)")
  from turn_loop_store[of t evs "[]" s1] loop
  have s2: "allChats s2 = allChats s1" and acc: "acc = full"
    by (simp_all add: evs_def full_def event_text_def)
  have err: "allChats (handleSendMessage now_user now_ai inputText evs (StreamThrows e) s)
               = allChats s1"
    by (simp add: handleSendMessage_def st loop turn_end_def turn_catch_proj s2)
  have fa: "finalAiMessage t full = fm"
    by (simp add: finalAiMessage_def fm_def aid td)
  have "allChats (handleSendMessage now_user now_ai inputText evs StreamDone s)
          = map (\<lambda>chat. if chat_id chat = A
                        then chat\<lparr>chat_messages := filter (\<lambda>m. msg_id m \<noteq> ''ai-'' @ now_ai) U @ [fm],
                                  aiMessagesSinceLastTitleUpdate :=
                                    Some ((case aiMessagesSinceLastTitleUpdate chat of
                                             None \<Rightarrow> 0 | Some n \<Rightarrow> n) + 1)\<rparr>
                        else chat) (allChats s1)"
    by (simp add: handleSendMessage_def st loop turn_end_def turn_complete_proj s2 cid acc fa
        U_def aid)
  also have "\<dots> = map (\<lambda>chat. if chat_id chat = A
                        then chat\<lparr>chat_messages :=
                                    filter (\<lambda>m. msg_id m \<noteq> ''ai-'' @ now_ai) (chat_messages chat) @ [fm],
                                  aiMessagesSinceLastTitleUpdate :=
                                    Some ((case aiMessagesSinceLastTitleUpdate chat of
                                             None \<Rightarrow> 0 | Some n \<Rightarrow> n) + 1)\<rparr>
                        else chat) (allChats s1)"
  proof (rule map_if_cong_chats)
    fix chat
    assume "chat \<in> set (allChats s1)" and "chat_id chat = A"
    then have "chat_messages chat = U"
      unfolding c1 by (rule chat_messages_after_store)
    then show "chat\<lparr>chat_messages := filter (\<lambda>m. msg_id m \<noteq> ''ai-'' @ now_ai) U @ [fm],
                    aiMessagesSinceLastTitleUpdate :=
                      Some ((case aiMessagesSinceLastTitleUpdate chat of None \<Rightarrow> 0 | Some n \<Rightarrow> n) + 1)\<rparr>
             = chat\<lparr>chat_messages :=
                      filter (\<lambda>m. msg_id m \<noteq> ''ai-'' @ now_ai) (chat_messages chat) @ [fm],
                    aiMessagesSinceLastTitleUpdate :=
                      Some ((case aiMessagesSinceLastTitleUpdate chat of None \<Rightarrow> 0 | Some n \<Rightarrow> n) + 1)\<rparr>"
      by simp
  qed
  finally have fin_eq: "allChats (handleSendMessage now_user now_ai inputText evs StreamDone s)
          = map (\<lambda>chat. if chat_id chat = A
                        then chat\<lparr>chat_messages :=
                                    filter (\<lambda>m. msg_id m \<noteq> ''ai-'' @ now_ai) (chat_messages chat) @ [fm],
                                  aiMessagesSinceLastTitleUpdate :=
                                    Some ((case aiMessagesSinceLastTitleUpdate chat of
                                             None \<Rightarrow> 0 | Some n \<Rightarrow> n) + 1)\<rparr>
                        else chat) (allChats s1)" .
  show ?thesis
    unfolding evs_def[symmetric] sw until err fin_eq fm_def full_def by simp
qed


section \<open>The claims about a chat turn\<close>

lemma example_app_ready:
  "trim ''hi'' \<noteq> []" "\<not> isLoading example_app"
  "\<forall>m \<in> set (messages example_app). msg_id m \<noteq> ''ai-'' @ ''2''"
  by (simp_all add: trim_def trimEnd_def trimStart_def is_js_space_def example_app_def
      example_chat_A_def)



text \<open>While the stream is open the store holds what the start of the turn wrote.\<close>

lemma until_store:
  assumes "trim inputText \<noteq> []" and "\<not> isLoading s"
  shows "allChats (handleSendMessage_until now_user now_ai inputText evs s)
         = (if truthy (currentChatId s)
            then map (\<lambda>chat. if Some (chat_id chat) = currentChatId s
                              then chat\<lparr>chat_messages :=
                                     (if isEffectivelyNewChat s then [] else messages s)
                                     @ [\<lparr>msg_id = ''user-'' @ now_user, msg_text = inputText,
                                         sender = User, isStreaming = None, isError = None,
                                         thinkingDetails = None\<rparr>]\<rparr>
                              else chat) (allChats s)
            else allChats s)"
proof -
  obtain t s1 where
    st: "handleSendMessage_start now_user now_ai inputText s = Some (t, s1)"
    and "aiResponseId t = ''ai-'' @ now_ai"
    and "t_render t = render_of s"
    and upd: "updatedMessagesWithUser t =
       (if isEffectivelyNewChat s then [] else messages s)
         @ [\<lparr>msg_id = ''user-'' @ now_user, msg_text = inputText, sender = User,
             isStreaming = None, isError = None, thinkingDetails = None\<rparr>]"
    and "messages s1 = updatedMessagesWithUser t
         @ [\<lparr>msg_id = ''ai-'' @ now_ai, msg_text = [], sender = AI, isStreaming = Some True,
             isError = None, thinkingDetails = thinkingDetailsForMessage t\<rparr>]"
    and "setMessagesLog s1 = setMessagesLog s @ [updatedMessagesWithUser t, messages s1]"
    and chats1: "allChats s1 = (if truthy (currentChatId s)
                    then map (\<lambda>chat. if Some (chat_id chat) = currentChatId s
                                      then chat\<lparr>chat_messages := updatedMessagesWithUser t\<rparr> else chat)
                           (allChats s)
                    else allChats s)"
    and "prefs s1 = prefs s"
    and "thinkingDetailsForMessage t = thinkingDetails_of (prefs s)"
    using assms by (rule handleSendMessage_start_Some)
  have "allChats (handleSendMessage_until now_user now_ai inputText evs s) = allChats s1"
    by (simp add: handleSendMessage_until_def st turn_loop_store)
  then show ?thesis by (simp only: chats1 upd)
qed

lemma example_until:
  "stored_messages ''chat-A''
     (handleSendMessage_until ''1'' ''2'' ''hi'' ([Chunk (Some ''Hel'')] @ [SwitchChat ''chat-B''])
        example_app)
   = Some (chat_messages example_chat_A
           @ [\<lparr>msg_id = ''user-1'', msg_text = ''hi'', sender = User, isStreaming = None,
               isError = None, thinkingDetails = None\<rparr>])"
  by (simp add: stored_messages_def until_store[OF example_app_ready(1,2)])
     (simp add: example_app_def example_chat_A_def example_chat_B_def truthy_def
        isEffectivelyNewChat_def)

lemma example_complete:
  "stored_messages ''chat-A''
     (handleSendMessage ''1'' ''2'' ''hi''
        ([Chunk (Some ''Hel'')] @ SwitchChat ''chat-B'' # [Chunk (Some ''lo'')]) StreamDone example_app)
   = Some (chat_messages example_chat_A
           @ [\<lparr>msg_id = ''user-1'', msg_text = ''hi'', sender = User, isStreaming = None,
               isError = None, thinkingDetails = None\<rparr>,
              \<lparr>msg_id = ''ai-2'', msg_text = ''Hello'', sender = AI, isStreaming = Some False,
               isError = None, thinkingDetails = thinkingDetails_of example_prefs\<rparr>])"
proof -
  have a: "currentChatId example_app = Some ''chat-A''" "''chat-A'' \<noteq> []"
    by (simp_all add: example_app_def)
  note ts = turn_store[OF example_app_ready(1,2) a, of "''1''" "''2''" "[Chunk (Some ''Hel'')]"
      "''chat-B''" "[Chunk (Some ''lo'')]"]
  show ?thesis
    apply (simp only: stored_messages_def conjunct2[OF conjunct2[OF ts]]
        until_store[OF example_app_ready(1,2)])
    apply (simp add: example_app_def example_chat_A_def example_chat_B_def truthy_def
        isEffectivelyNewChat_def event_text_def)
    done
qed


text \<open>
  C2, as the code has it. A turn is started while chat \<open>A\<close> is active, and the user switches
  to chat \<open>B\<close> while the stream is open. No chunk, before or after the switch, changes any
  stored chat, and neither does a stream that ends with an error. A stream that ends
  normally does change the stored chat \<open>A\<close>, and only it: the final assistant message, whose
  text is the text of all chunks, those after the switch included, is appended to the
  messages stored for \<open>A\<close>, and its counter of assistant messages goes up by one.
\<close>

theorem stale_turn_store:
  assumes "trim inputText \<noteq> []" and "\<not> isLoading s"
    and "currentChatId s = Some A" and "A \<noteq> []"
  shows "allChats (handleSendMessage_until now_user now_ai inputText (pre @ SwitchChat B # post) s)
           = allChats (handleSendMessage_until now_user now_ai inputText (pre @ [SwitchChat B]) s)
       \<and> allChats (handleSendMessage now_user now_ai inputText (pre @ SwitchChat B # post)
                     (StreamThrows e) s)
           = allChats (handleSendMessage_until now_user now_ai inputText (pre @ [SwitchChat B]) s)
       \<and> allChats (handleSendMessage now_user now_ai inputText (pre @ SwitchChat B # post)
                     StreamDone s)
           = map (\<lambda>chat. if chat_id chat = A
                         then chat\<lparr>chat_messages :=
                                     filter (\<lambda>m. msg_id m \<noteq> ''ai-'' @ now_ai) (chat_messages chat)
                                     @ [\<lparr>msg_id = ''ai-'' @ now_ai,
                                         msg_text = concat (map event_text (pre @ post)),
                                         sender = AI, isStreaming = Some False, isError = None,
                                         thinkingDetails = thinkingDetails_of (prefs s)\<rparr>],
                                   aiMessagesSinceLastTitleUpdate :=
                                     Some ((case aiMessagesSinceLastTitleUpdate chat of
                                              None \<Rightarrow> 0 | Some n \<Rightarrow> n) + 1)\<rparr>
                         else chat)
               (allChats (handleSendMessage_until now_user now_ai inputText (pre @ [SwitchChat B]) s))"
  using assms by (rule turn_store)

theorem stale_turn_store_witness:
  "trim ''hi'' \<noteq> [] \<and> \<not> isLoading example_app
   \<and> currentChatId example_app = Some ''chat-A'' \<and> ''chat-A'' \<noteq> []
   \<and> allChats (handleSendMessage_until ''1'' ''2'' ''hi''
                 [Chunk (Some ''Hel''), SwitchChat ''chat-B'', Chunk (Some ''lo'')] example_app)
      = allChats (handleSendMessage_until ''1'' ''2'' ''hi''
                 [Chunk (Some ''Hel''), SwitchChat ''chat-B''] example_app)
   \<and> allChats (handleSendMessage ''1'' ''2'' ''hi''
                 [Chunk (Some ''Hel''), SwitchChat ''chat-B'', Chunk (Some ''lo'')]
                 (StreamThrows None) example_app)
      = allChats (handleSendMessage_until ''1'' ''2'' ''hi''
                 [Chunk (Some ''Hel''), SwitchChat ''chat-B''] example_app)"
proof -
  have a: "currentChatId example_app = Some ''chat-A''" "''chat-A'' \<noteq> []"
    by (simp_all add: example_app_def)
  from stale_turn_store[OF example_app_ready(1,2) a, of "''1''" "''2''" "[Chunk (Some ''Hel'')]"
      "''chat-B''" "[Chunk (Some ''lo'')]" None]
  show ?thesis using example_app_ready(1,2) a by simp
qed

text \<open>
  C2 as stated fails: after the switch to chat B the end of the stream appends the
  assistant message to the messages stored for chat A.
\<close>

theorem stale_turn_finalization_counterexample:
  "stored_messages ''chat-A''
     (handleSendMessage ''1'' ''2'' ''hi''
        [Chunk (Some ''Hel''), SwitchChat ''chat-B'', Chunk (Some ''lo'')] StreamDone example_app)
   \<noteq> stored_messages ''chat-A''
     (handleSendMessage_until ''1'' ''2'' ''hi''
        [Chunk (Some ''Hel''), SwitchChat ''chat-B''] example_app)"
  using example_until example_complete by simp


text \<open>
  C3, as the code has it. A turn over chunks whose stream ends normally updates its
  assistant message as follows: the placeholder with empty text and streaming on; one
  update per chunk that has text, with streaming on and the text accumulated so far; then
  two updates with streaming off and the full text, the one of the \<open>finally\<close> block and
  the replacement by the final message. The message ends with the full text.
\<close>

theorem stream_fold_updates:
  assumes "trim inputText \<noteq> []" and "\<not> isLoading s"
    and "\<forall>m \<in> set (messages s). msg_id m \<noteq> ''ai-'' @ now_ai"
  shows "message_updates (''ai-'' @ now_ai) s
           (handleSendMessage now_user now_ai inputText (map Chunk cs) StreamDone s)
         = ([], Some True, None)
           # map (\<lambda>p. (p, Some True, None)) (accumulated_prefixes [] cs)
           @ [(concat (map chunk_text cs), Some False, None),
              (concat (map chunk_text cs), Some False, None)]
       \<and> msg_text (last (messages
           (handleSendMessage now_user now_ai inputText (map Chunk cs) StreamDone s)))
         = concat (map chunk_text cs)
       \<and> isStreaming (last (messages
           (handleSendMessage now_user now_ai inputText (map Chunk cs) StreamDone s)))
         = Some False"
  using assms by (rule turn_updates_normal)

theorem stream_fold_updates_witness:
  "trim ''hi'' \<noteq> [] \<and> \<not> isLoading example_app
   \<and> list_all (\<lambda>m. msg_id m \<noteq> ''ai-2'') (messages example_app)
   \<and> message_updates ''ai-2'' example_app
        (handleSendMessage ''1'' ''2'' ''hi''
           (map Chunk [Some ''Hel'', Some ''lo '', Some ''world'']) StreamDone example_app)
      = [([], Some True, None), (''Hel'', Some True, None), (''Hello '', Some True, None),
         (''Hello world'', Some True, None),
         (''Hello world'', Some False, None), (''Hello world'', Some False, None)]
   \<and> msg_text (last (messages
        (handleSendMessage ''1'' ''2'' ''hi''
           (map Chunk [Some ''Hel'', Some ''lo '', Some ''world'']) StreamDone example_app)))
      = ''Hello world''"
proof -
  have l: "list_all (\<lambda>m. msg_id m \<noteq> ''ai-2'') (messages example_app)"
    by (simp add: example_app_def example_chat_A_def)
  from stream_fold_updates[OF example_app_ready, of "''1''"
      "[Some ''Hel'', Some ''lo '', Some ''world'']"]
  show ?thesis using example_app_ready(1,2) l by simp
qed

text \<open>
  C3 as stated fails: on the three deltas two updates carry \<open>streaming = false\<close>, not one.
\<close>

theorem stream_fold_terminal_counterexample:
  "length (filter streaming_off
     (message_updates ''ai-2'' example_app
        (handleSendMessage ''1'' ''2'' ''hi''
           (map Chunk [Some ''Hel'', Some ''lo '', Some ''world'']) StreamDone example_app)))
   \<noteq> 1"
proof -
  from turn_updates_normal[OF example_app_ready, of "''1''"
      "[Some ''Hel'', Some ''lo '', Some ''world'']"]
  have "message_updates ''ai-2'' example_app
        (handleSendMessage ''1'' ''2'' ''hi''
           (map Chunk [Some ''Hel'', Some ''lo '', Some ''world'']) StreamDone example_app)
      = [([], Some True, None), (''Hel'', Some True, None), (''Hello '', Some True, None),
         (''Hello world'', Some True, None),
         (''Hello world'', Some False, None), (''Hello world'', Some False, None)]"
    by simp
  then show ?thesis by (simp add: streaming_off_def)
qed

text \<open>
  C4: what the code does when the stream throws. The assistant message ends with the
  error flag set and streaming off, but its text is the text accumulated before the
  error, not the error string: the \<open>catch\<close> block writes the error string into the message
  and the \<open>finally\<close> block, which runs after it, writes the accumulated text over it. The
  error string stays in the banner only.
\<close>

theorem stream_error_message_text:
  assumes "trim inputText \<noteq> []" and "\<not> isLoading s"
    and "\<forall>m \<in> set (messages s). msg_id m \<noteq> ''ai-'' @ now_ai"
  shows "message_updates (''ai-'' @ now_ai) s
           (handleSendMessage now_user now_ai inputText (map Chunk cs) (StreamThrows e) s)
         = ([], Some True, None)
           # map (\<lambda>p. (p, Some True, None)) (accumulated_prefixes [] cs)
           @ [(''Error: '' @ or_else e ''Failed to get response from AI.'', Some False, Some True),
              (concat (map chunk_text cs), Some False, Some True)]
       \<and> msg_text (last (messages
           (handleSendMessage now_user now_ai inputText (map Chunk cs) (StreamThrows e) s)))
         = concat (map chunk_text cs)
       \<and> isError (last (messages
           (handleSendMessage now_user now_ai inputText (map Chunk cs) (StreamThrows e) s)))
         = Some True
       \<and> isStreaming (last (messages
           (handleSendMessage now_user now_ai inputText (map Chunk cs) (StreamThrows e) s)))
         = Some False
       \<and> error (handleSendMessage now_user now_ai inputText (map Chunk cs) (StreamThrows e) s)
         = Some (''Error: '' @ or_else e ''Failed to get response from AI.'')
       \<and> isLoading (handleSendMessage now_user now_ai inputText (map Chunk cs) (StreamThrows e) s)
         = False"
  using assms by (rule turn_updates_error)

theorem stream_error_message_text_witness:
  "trim ''hi'' \<noteq> [] \<and> \<not> isLoading example_app
   \<and> list_all (\<lambda>m. msg_id m \<noteq> ''ai-2'') (messages example_app)
   \<and> message_updates ''ai-2'' example_app
        (handleSendMessage ''1'' ''2'' ''hi'' (map Chunk [Some ''Hel''])
           (StreamThrows (Some ''boom'')) example_app)
      = [([], Some True, None), (''Hel'', Some True, None),
         (''Error: boom'', Some False, Some True), (''Hel'', Some False, Some True)]
   \<and> msg_text (last (messages
        (handleSendMessage ''1'' ''2'' ''hi'' (map Chunk [Some ''Hel''])
           (StreamThrows (Some ''boom'')) example_app)))
      = ''Hel''
   \<and> error (handleSendMessage ''1'' ''2'' ''hi'' (map Chunk [Some ''Hel''])
           (StreamThrows (Some ''boom'')) example_app)
      = Some ''Error: boom''"
proof -
  have l: "list_all (\<lambda>m. msg_id m \<noteq> ''ai-2'') (messages example_app)"
    by (simp add: example_app_def example_chat_A_def)
  from stream_error_message_text[OF example_app_ready, of "''1''" "[Some ''Hel'']" "Some ''boom''"]
  show ?thesis using example_app_ready(1,2) l by (simp add: or_else_def)
qed



section \<open>The SDK gateway: sessions and the thinking budget\<close>

lemma initializeAI_again:
  "initializeAI e st = Inr (calls, st1) \<Longrightarrow> initializeAI e st1 = Inr ([], st1)"
  by (auto simp: initializeAI_def truthy_def split: if_splits option.splits)

text \<open>The session that a call builds depends on the arguments only.\<close>

lemma initializeChatSession_eq:
  "initializeChatSession e modelName history budgetArg st =
     (case initializeAI e st of
        Inl err \<Rightarrow> Inl err
      | Inr (calls, st1) \<Rightarrow>
          Inr (calls @ [ChatsCreate
                 \<lparr>s_model = (if modelName \<in> set AVAILABLE_CHAT_MODELS then modelName
                              else DEFAULT_CHAT_MODEL),
                  s_config = \<lparr>systemInstruction = systemInstruction_for (getFriendlyModelName modelName),
                              thinkingConfig =
                                (if (if modelName \<in> set AVAILABLE_CHAT_MODELS then modelName
                                     else DEFAULT_CHAT_MODEL) = ''gemini-2.5-flash''
                                 then budgetArg else None)\<rparr>,
                  s_history = (case history of None \<Rightarrow> [] | Some h \<Rightarrow> h)\<rparr>],
               \<lparr>s_model = (if modelName \<in> set AVAILABLE_CHAT_MODELS then modelName
                            else DEFAULT_CHAT_MODEL),
                s_config = \<lparr>systemInstruction = systemInstruction_for (getFriendlyModelName modelName),
                            thinkingConfig =
                              (if (if modelName \<in> set AVAILABLE_CHAT_MODELS then modelName
                                   else DEFAULT_CHAT_MODEL) = ''gemini-2.5-flash''
                               then budgetArg else None)\<rparr>,
                s_history = (case history of None \<Rightarrow> [] | Some h \<Rightarrow> h)\<rparr>,
               st1\<lparr>chatSessionInstance := Some
                 \<lparr>s_model = (if modelName \<in> set AVAILABLE_CHAT_MODELS then modelName
                              else DEFAULT_CHAT_MODEL),
                  s_config = \<lparr>systemInstruction = systemInstruction_for (getFriendlyModelName modelName),
                              thinkingConfig =
                                (if (if modelName \<in> set AVAILABLE_CHAT_MODELS then modelName
                                     else DEFAULT_CHAT_MODEL) = ''gemini-2.5-flash''
                                 then budgetArg else None)\<rparr>,
                  s_history = (case history of None \<Rightarrow> [] | Some h \<Rightarrow> h)\<rparr>\<rparr>))"
proof (cases "initializeAI e st")
  case (Inl err)
  then show ?thesis by (simp add: initializeChatSession_def)
next
  case (Inr p)
  obtain calls0 st0 where p: "p = (calls0, st0)" by (cases p)
  show ?thesis
  proof (cases budgetArg)
    case None
    then show ?thesis by (simp add: initializeChatSession_def Inr p Let_def)
  next
    case (Some b)
    then show ?thesis
      by (cases "(if modelName \<in> set AVAILABLE_CHAT_MODELS then modelName
                  else DEFAULT_CHAT_MODEL) = ''gemini-2.5-flash''")
         (simp_all add: initializeChatSession_def Inr p Let_def)
  qed
qed

lemma session_rebuilt_each_time:
  assumes "initializeChatSession e modelName history budgetArg st = Inr (calls, sess, st1)"
  shows "initializeChatSession e modelName history budgetArg st1
           = Inr ([ChatsCreate sess], sess, st1)"
proof (cases "initializeAI e st")
  case (Inl err)
  with assms show ?thesis by (simp add: initializeChatSession_eq)
next
  case (Inr p)
  obtain calls0 st0 where p: "p = (calls0, st0)" by (cases p)
  from Inr p have a: "initializeAI e st = Inr (calls0, st0)" by simp
  from assms have st1: "st1 = st0\<lparr>chatSessionInstance := Some sess\<rparr>"
    unfolding initializeChatSession_eq a by auto
  from a have "initializeAI e st0 = Inr ([], st0)" by (rule initializeAI_again)
  then have b: "initializeAI e st1 = Inr ([], st1)"
    by (auto simp: initializeAI_def st1 split: if_splits)
  from assms show ?thesis
    unfolding initializeChatSession_eq a b by (auto simp: st1)
qed

lemma example_first_session:
  "initializeChatSession env_with_key ''gemini-2.5-flash'' (Some []) (Some 2) fresh_service
   = Inr ([NewGoogleGenAI ''k-123'',
           ChatsCreate \<lparr>s_model = ''gemini-2.5-flash'',
                         s_config = \<lparr>systemInstruction = systemInstruction_for ''Flash (Fast & Efficient)'',
                                     thinkingConfig = Some 2\<rparr>,
                         s_history = []\<rparr>],
          \<lparr>s_model = ''gemini-2.5-flash'',
            s_config = \<lparr>systemInstruction = systemInstruction_for ''Flash (Fast & Efficient)'',
                        thinkingConfig = Some 2\<rparr>,
            s_history = []\<rparr>,
          \<lparr>ai = Some ''k-123'',
            chatSessionInstance =
              Some \<lparr>s_model = ''gemini-2.5-flash'',
                     s_config = \<lparr>systemInstruction = systemInstruction_for ''Flash (Fast & Efficient)'',
                                 thinkingConfig = Some 2\<rparr>,
                     s_history = []\<rparr>\<rparr>)"
  by (simp add: initializeChatSession_def initializeAI_def env_with_key_def fresh_service_def
      truthy_def AVAILABLE_CHAT_MODELS_def DEFAULT_CHAT_MODEL_def getFriendlyModelName_def
      MODEL_FRIENDLY_NAMES_def or_else_def Let_def)



text \<open>
  C5, as the code has it. \<open>initializeChatSession\<close> keeps nothing to compare its arguments
  with: called again with the same arguments right after a call that succeeded, it
  creates a session once more. This second session and the module state after it equal
  those after the first call.
\<close>

theorem session_rebuild_repeats:
  assumes "initializeChatSession e modelName history budgetArg st = Inr (calls, sess, st1)"
  shows "initializeChatSession e modelName history budgetArg st1
           = Inr ([ChatsCreate sess], sess, st1)"
  using assms by (rule session_rebuilt_each_time)

theorem session_rebuild_repeats_witness:
  "calls_of (initializeChatSession env_with_key ''gemini-2.5-flash'' (Some []) (Some 2)
       (state_after fresh_service
          (initializeChatSession env_with_key ''gemini-2.5-flash'' (Some []) (Some 2) fresh_service)))
   = [ChatsCreate \<lparr>s_model = ''gemini-2.5-flash'',
                    s_config = \<lparr>systemInstruction = systemInstruction_for ''Flash (Fast & Efficient)'',
                                thinkingConfig = Some 2\<rparr>,
                    s_history = []\<rparr>]
   \<and> state_after fresh_service
       (initializeChatSession env_with_key ''gemini-2.5-flash'' (Some []) (Some 2)
          (state_after fresh_service
             (initializeChatSession env_with_key ''gemini-2.5-flash'' (Some []) (Some 2) fresh_service)))
     = state_after fresh_service
         (initializeChatSession env_with_key ''gemini-2.5-flash'' (Some []) (Some 2) fresh_service)"
  using session_rebuild_repeats[OF example_first_session]
  by (simp add: example_first_session calls_of_def state_after_def)

text \<open>
  C5 as stated fails: the second of two identical calls is not a no-op, it creates a session.
\<close>

theorem session_rebuild_counterexample:
  "calls_of (initializeChatSession env_with_key ''gemini-2.5-flash'' (Some []) (Some 2)
       (state_after fresh_service
          (initializeChatSession env_with_key ''gemini-2.5-flash'' (Some []) (Some 2) fresh_service)))
   \<noteq> []"
  using session_rebuilt_each_time[OF example_first_session]
  by (simp add: example_first_session calls_of_def state_after_def)

text \<open>
  C6, as the code has it. A request carries a thinking budget exactly when the model it
  names is in the supported set, and then it is the caller's budget unchanged. The proxy
  gateway names the model it is given, and so does the request of a chat turn, whose
  budget is the one of the settings. The SDK gateway names the model it is given when
  that is one of the available models and the default model, which supports the budget,
  otherwise: a name outside the available models gets the budget.
\<close>

theorem thinking_budget_by_request_model:
  assumes "initializeChatSession e modelName history budgetArg st = Inr (calls, sess, st1)"
  shows "p_model (sendMessageToChatStream_payload message hist model budgetArg) = model
       \<and> thinkingConfig (p_config (sendMessageToChatStream_payload message hist model budgetArg))
           = (if model \<in> set THINKING_CONFIG_SUPPORTED_MODELS then budgetArg else None)
       \<and> s_model sess = (if modelName \<in> set AVAILABLE_CHAT_MODELS then modelName
                          else DEFAULT_CHAT_MODEL)
       \<and> thinkingConfig (s_config sess)
           = (if s_model sess \<in> set THINKING_CONFIG_SUPPORTED_MODELS then budgetArg else None)
       \<and> thinkingConfig (p_config (handleSendMessage_payload inputText t s))
           = (if currentChatModel (prefs s) \<in> set THINKING_CONFIG_SUPPORTED_MODELS
              then Some (thinkingBudget (prefs s)) else None)"
proof -
  have app: "thinkingConfig (p_config (handleSendMessage_payload inputText t s))
           = (if currentChatModel (prefs s) \<in> set THINKING_CONFIG_SUPPORTED_MODELS
              then Some (thinkingBudget (prefs s)) else None)"
    by (simp add: handleSendMessage_payload_def sendMessageToChatStream_payload_def
        THINKING_CONFIG_SUPPORTED_MODELS_def Let_def)
  have "p_model (sendMessageToChatStream_payload message hist model budgetArg) = model"
    by (simp add: sendMessageToChatStream_payload_def Let_def)
  moreover have "thinkingConfig (p_config (sendMessageToChatStream_payload message hist model budgetArg))
           = (if model \<in> set THINKING_CONFIG_SUPPORTED_MODELS then budgetArg else None)"
    by (cases budgetArg)
       (simp_all add: sendMessageToChatStream_payload_def THINKING_CONFIG_SUPPORTED_MODELS_def Let_def)
  moreover from assms have "sess =
      \<lparr>s_model = (if modelName \<in> set AVAILABLE_CHAT_MODELS then modelName else DEFAULT_CHAT_MODEL),
       s_config = \<lparr>systemInstruction = systemInstruction_for (getFriendlyModelName modelName),
                   thinkingConfig =
                     (if (if modelName \<in> set AVAILABLE_CHAT_MODELS then modelName
                          else DEFAULT_CHAT_MODEL) = ''gemini-2.5-flash''
                      then budgetArg else None)\<rparr>,
       s_history = (case history of None \<Rightarrow> [] | Some h \<Rightarrow> h)\<rparr>"
    unfolding initializeChatSession_eq by (cases "initializeAI e st") auto
  then have "s_model sess = (if modelName \<in> set AVAILABLE_CHAT_MODELS then modelName
                          else DEFAULT_CHAT_MODEL)"
    and "thinkingConfig (s_config sess)
           = (if s_model sess \<in> set THINKING_CONFIG_SUPPORTED_MODELS then budgetArg else None)"
    by (simp_all add: THINKING_CONFIG_SUPPORTED_MODELS_def)
  ultimately show ?thesis using app by simp
qed

theorem thinking_budget_by_request_model_witness:
  "thinkingConfig (p_config (sendMessageToChatStream_payload (Inl ''hi'') [] ''gemini-2.5-pro'' (Some 2)))
     = None
   \<and> thinkingConfig (p_config (sendMessageToChatStream_payload (Inl ''hi'') [] ''gemini-2.5-flash'' (Some 2)))
     = Some 2
   \<and> value_of (initializeChatSession env_with_key ''gemini-2.5-flash'' (Some []) (Some 2) fresh_service)
     = Some \<lparr>s_model = ''gemini-2.5-flash'',
             s_config = \<lparr>systemInstruction = systemInstruction_for ''Flash (Fast & Efficient)'',
                         thinkingConfig = Some 2\<rparr>,
             s_history = []\<rparr>"
  using thinking_budget_by_request_model[OF example_first_session, of "Inl ''hi''" "[]" "''gemini-2.5-pro''"]
    thinking_budget_by_request_model[OF example_first_session, of "Inl ''hi''" "[]" "''gemini-2.5-flash''"]
  by (simp add: THINKING_CONFIG_SUPPORTED_MODELS_def value_of_def example_first_session)

text \<open>
  C6 as stated fails: for a model name that is not in the supported set, and not among
  the available models either, the session of the SDK gateway carries the budget.
\<close>

theorem thinking_budget_counterexample:
  "''gemini-1.5-pro'' \<notin> set THINKING_CONFIG_SUPPORTED_MODELS
   \<and> value_of (initializeChatSession env_with_key ''gemini-1.5-pro'' (Some []) (Some 3) fresh_service)
     = Some \<lparr>s_model = ''gemini-2.5-flash'',
             s_config = \<lparr>systemInstruction = systemInstruction_for ''gemini-1.5-pro'',
                         thinkingConfig = Some 3\<rparr>,
             s_history = []\<rparr>"
  by (simp add: initializeChatSession_eq initializeAI_def env_with_key_def fresh_service_def
      truthy_def AVAILABLE_CHAT_MODELS_def DEFAULT_CHAT_MODEL_def getFriendlyModelName_def
      MODEL_FRIENDLY_NAMES_def or_else_def THINKING_CONFIG_SUPPORTED_MODELS_def value_of_def)

text \<open>
  C9, as the code has it. For an empty or null message list the SDK gateway first runs
  \<open>initializeAI\<close>: with an API key it returns \<open>New Chat\<close> and sends no request (it creates
  the client if there was none); without an API key it throws. The proxy gateway returns
  \<open>New Chat\<close> and posts nothing.
\<close>

theorem title_of_empty_list:
  assumes "chatMessages = None \<or> chatMessages = Some []"
  shows "generateChatTitleWithAI e generateContent chatMessages base st
           = (if truthy (API_KEY e)
              then Inr (if ai st = None then [NewGoogleGenAI (the (API_KEY e))] else [],
                        ''New Chat'',
                        if ai st = None then st\<lparr>ai := API_KEY e\<rparr> else st)
              else Inl ApiKeyNotSet)
       \<and> generateChatTitleWithAI_proxy fetch chatMessages base = ([], ''New Chat'')"
  using assms
  by (auto simp: generateChatTitleWithAI_def generateChatTitleWithAI_proxy_def initializeAI_def)

theorem title_of_empty_list_witness:
  "generateChatTitleWithAI env_with_key generateContent_down (Some []) INITIAL_AI_WELCOME_TEXT_BASE
       fresh_service
     = Inr ([NewGoogleGenAI ''k-123''], ''New Chat'', \<lparr>ai = Some ''k-123'', chatSessionInstance = None\<rparr>)
   \<and> generateChatTitleWithAI_proxy fetch_down None INITIAL_AI_WELCOME_TEXT_BASE = ([], ''New Chat'')"
  using title_of_empty_list[of "Some []" env_with_key generateContent_down
      INITIAL_AI_WELCOME_TEXT_BASE fresh_service]
    title_of_empty_list[of None env_with_key generateContent_down
      INITIAL_AI_WELCOME_TEXT_BASE fresh_service fetch_down]
  by (simp add: env_with_key_def fresh_service_def truthy_def)

text \<open>
  C9 as stated fails for the SDK gateway: without an API key the call throws, also for the
  empty list.
\<close>

theorem title_of_empty_list_counterexample:
  "generateChatTitleWithAI env_without_key generateContent_down (Some [])
     INITIAL_AI_WELCOME_TEXT_BASE fresh_service
   = Inl ApiKeyNotSet"
  by (simp add: generateChatTitleWithAI_def initializeAI_def env_without_key_def truthy_def)



section \<open>The fallback title\<close>

lemma split_space_no_space: "CHR '' '' \<notin> set w \<Longrightarrow> split_space w = [w]"
  by (induction w) auto

lemma split_space_word_space:
  "CHR '' '' \<notin> set w \<Longrightarrow> split_space (w @ CHR '' '' # rest) = w # split_space rest"
  by (induction w) auto

text \<open>Cutting at the spaces undoes joining words that have no space inside.\<close>

lemma split_space_join_space:
  "ws \<noteq> [] \<Longrightarrow> \<forall>w \<in> set ws. CHR '' '' \<notin> set w \<Longrightarrow> split_space (join_space ws) = ws"
proof (induction ws rule: join_space.induct)
  case 1
  then show ?case by simp
next
  case (2 w)
  then show ?case by (simp add: split_space_no_space)
next
  case (3 w v ws)
  then show ?case by (simp add: split_space_word_space)
qed

lemma trimStart_pad:
  assumes "list_all is_js_space l" and "core \<noteq> []" and "\<not> is_js_space (hd core)"
  shows "trimStart (l @ core) = core"
proof -
  from assms(1) have "dropWhile is_js_space (l @ core) = dropWhile is_js_space core"
    by (simp add: dropWhile_append2 list_all_iff)
  also from assms(2,3) have "\<dots> = core" by (cases core) simp_all
  finally show ?thesis by (simp add: trimStart_def)
qed

lemma trimEnd_pad:
  assumes "list_all is_js_space r" and "core \<noteq> []" and "\<not> is_js_space (last core)"
  shows "trimEnd (core @ r) = core"
proof -
  have "rev (core @ r) = rev r @ rev core" by simp
  moreover from assms(1) have "list_all is_js_space (rev r)" by (simp add: list_all_iff)
  moreover from assms(2,3) have "rev core \<noteq> []" "\<not> is_js_space (hd (rev core))"
    by (simp_all add: hd_rev)
  ultimately have "trimStart (rev (core @ r)) = rev core"
    by (simp add: trimStart_pad)
  then show ?thesis by (simp add: trimEnd_def trimStart_def)
qed

lemma trim_pad:
  assumes "list_all is_js_space l" and "list_all is_js_space r"
    and "core \<noteq> []" and "\<not> is_js_space (hd core)" and "\<not> is_js_space (last core)"
  shows "trim (l @ core @ r) = core"
proof -
  from assms(3,4) have "core @ r \<noteq> []" "\<not> is_js_space (hd (core @ r))" by simp_all
  with assms(1) have "trimStart (l @ core @ r) = core @ r" by (rule trimStart_pad)
  with assms(2,3,5) show ?thesis by (simp add: trim_def trimEnd_pad)
qed

lemma join_space_not_Nil: "length ws > 1 \<Longrightarrow> join_space ws \<noteq> []"
  by (induction ws rule: join_space.induct) simp_all

text \<open>The words of a message, as the fallback title sees them.\<close>

lemma words_of_text:
  assumes mtext: "msg_text m = l @ join_space ws @ rt"
    and pad: "list_all is_js_space l" "list_all is_js_space rt"
    and ends: "\<not> is_js_space (hd (join_space ws))" "\<not> is_js_space (last (join_space ws))"
    and words: "\<forall>w \<in> set ws. CHR '' '' \<notin> set w" "length ws > 4"
  shows "split_space (trim (msg_text m)) = ws" and "trim (msg_text m) \<noteq> []"
    and "msg_text m \<noteq> []"
proof -
  from words(2) have ne: "join_space ws \<noteq> []" by (simp add: join_space_not_Nil)
  from pad ne ends have t: "trim (msg_text m) = join_space ws"
    unfolding mtext by (rule trim_pad)
  from words have "ws \<noteq> []" by auto
  with words(1) show "split_space (trim (msg_text m)) = ws"
    by (simp add: t split_space_join_space)
  from t ne show "trim (msg_text m) \<noteq> []" by simp
  from ne show "msg_text m \<noteq> []" by (simp add: mtext)
qed

lemma fallback_title_of_words:
  assumes first: "find (\<lambda>m. sender m = User) msgs = Some m"
    and w: "split_space (trim (msg_text m)) = ws" "msg_text m \<noteq> []" "length ws > 4"
  shows "generateFallbackTitle msgs = join_space (take 4 ws) @ ''...''"
  using assms by (simp add: generateFallbackTitle_def Let_def)

lemma find_user_in_history:
  assumes "find (\<lambda>m. sender m = User) msgs = Some m"
  shows "msgs \<noteq> []" and "mapAppMessagesToGeminiHistoryForTitle msgs base \<noteq> []"
proof -
  from assms have m: "m \<in> set msgs" "sender m = User"
    by (auto simp: find_Some_iff)
  then show "msgs \<noteq> []" by auto
  from m have "m \<in> set (filter (\<lambda>msg.
                  if sender msg = User then True
                  else if sender msg = AI
                          \<and> \<not> startsWith (msg_text msg) ''AI is viewing the image''
                          \<and> \<not> startsWith (msg_text msg) ''NeuraMorphosis AI is thinking deeply...''
                          \<and> \<not> startsWith (msg_text msg) base
                  then True else False) msgs)"
    by simp
  then show "mapAppMessagesToGeminiHistoryForTitle msgs base \<noteq> []"
    unfolding mapAppMessagesToGeminiHistoryForTitle_def
    by (simp only: map_is_Nil_conv) (rule notI, simp only: list.set empty_iff)
qed

lemma title_from_failed_response:
  "(case responseText of None \<Rightarrow> True | Some rt \<Rightarrow> trim rt = [])
     \<Longrightarrow> title_from_response responseText msgs = generateFallbackTitle msgs"
  by (cases responseText) (simp_all add: title_from_response_def)

lemma fetch_failed_case:
  "fetch_failed out \<Longrightarrow>
     (case out of
        FetchThrows \<Rightarrow> (ps, generateFallbackTitle msgs)
      | FetchNotOk \<Rightarrow> (ps, generateFallbackTitle msgs)
      | FetchOkBadJson \<Rightarrow> (ps, generateFallbackTitle msgs)
      | FetchOk responseText \<Rightarrow> (ps, title_from_response responseText msgs))
     = (ps, generateFallbackTitle msgs)"
  by (cases out) (simp_all add: fetch_failed_def title_from_failed_response)

lemma gen_failed_case:
  "gen_failed out \<Longrightarrow>
     (case out of
        GenThrows \<Rightarrow> Inr (cs, generateFallbackTitle msgs, st)
      | GenResponse blockReason responseText \<Rightarrow>
          if truthy blockReason then Inr (cs, generateFallbackTitle msgs, st)
          else Inr (cs, title_from_response responseText msgs, st))
     = (Inr (cs, generateFallbackTitle msgs, st)
         :: service_error + (sdk_call list \<times> string \<times> service_state))"
  by (cases out) (auto simp: gen_failed_def title_from_failed_response)

lemma proxy_title_when_down:
  assumes "find (\<lambda>m. sender m = User) msgs = Some m" and "\<forall>p. fetch_failed (fetch p)"
  shows "title_via_proxy fetch msgs base = Inr (generateFallbackTitle msgs)"
  using find_user_in_history[OF assms(1)] assms(2)
  by (simp add: title_via_proxy_def generateChatTitleWithAI_proxy_def Let_def fetch_failed_case)

lemma sdk_title_when_down:
  assumes "find (\<lambda>m. sender m = User) msgs = Some m" and "\<forall>q. gen_failed (generateContent q)"
    and "truthy (API_KEY e)"
  shows "title_via_sdk e generateContent st msgs base = Inr (generateFallbackTitle msgs)"
proof -
  obtain calls st1 where ini: "initializeAI e st = Inr (calls, st1)"
    using assms(3) by (cases "ai st = None") (simp_all add: initializeAI_def)
  show ?thesis
    using find_user_in_history[OF assms(1)] assms(2)
    by (simp add: title_via_sdk_def generateChatTitleWithAI_def ini Let_def gen_failed_case)
qed

text \<open>A queued job that is not stale and has a user message commits the generated title.\<close>

lemma processTitleUpdateQueue_commit:
  assumes job: "titleUpdateQueue s = Some \<lparr>job_id = cid, isNew = n, messagesForContext = msgs\<rparr>"
    and current: "r_currentChatId r = Some cid \<or> n"
    and user: "find (\<lambda>m. sender m = User) msgs = Some m" "trim (msg_text m) \<noteq> []"
    and gen: "gen msgs INITIAL_AI_WELCOME_TEXT_BASE = Inr newTitle"
  shows "allChats (processTitleUpdateQueue gen r s)
           = map (\<lambda>chat. if chat_id chat = cid
                         then chat\<lparr>title := newTitle, aiMessagesSinceLastTitleUpdate := Some 0\<rparr>
                         else chat) (allChats s)"
    and "error (processTitleUpdateQueue gen r s) = error s"
proof -
  from user have "m \<in> set msgs" "sender m = User \<and> trim (msg_text m) \<noteq> []"
    by (auto simp: find_Some_iff)
  then have has: "list_ex (\<lambda>m. sender m = User \<and> trim (msg_text m) \<noteq> []) msgs"
    by (auto simp: list_ex_iff)
  from current have nostale: "\<not> n \<Longrightarrow> r_currentChatId r = Some cid" by auto
  show "allChats (processTitleUpdateQueue gen r s)
           = map (\<lambda>chat. if chat_id chat = cid
                         then chat\<lparr>title := newTitle, aiMessagesSinceLastTitleUpdate := Some 0\<rparr>
                         else chat) (allChats s)"
    using nostale has by (cases n) (simp_all add: processTitleUpdateQueue_def job gen Let_def)
  show "error (processTitleUpdateQueue gen r s) = error s"
    using nostale has by (cases n) (simp_all add: processTitleUpdateQueue_def job gen Let_def)
qed



text \<open>
  C7, as the code has it. The words of the fallback title are the pieces between single
  spaces of the first user message, once the white space around it is removed: a line
  break or a tab does not end a word, and two spaces in a row enclose an empty word. A
  title job is due for a conversation whose first user message has more than four such
  pieces. If the title request fails (it throws, the response is not ok or not JSON, the
  prompt is blocked, or no text comes back), the title committed to the conversation is
  the first four pieces joined by spaces and followed by three dots, and the error state
  of the application is left as it was. This holds for the proxy gateway, and for the SDK
  gateway whenever a title is requested at all, that is, when the API key is configured.
\<close>

theorem title_fallback_committed:
  assumes job: "titleUpdateQueue s = Some \<lparr>job_id = cid, isNew = n, messagesForContext = msgs\<rparr>"
    and current: "r_currentChatId r = Some cid \<or> n"
    and first: "find (\<lambda>m. sender m = User) msgs = Some m"
    and mtext: "msg_text m = l @ join_space ws @ rt"
    and pad: "list_all is_js_space l" "list_all is_js_space rt"
    and ends: "\<not> is_js_space (hd (join_space ws))" "\<not> is_js_space (last (join_space ws))"
    and words: "\<forall>w \<in> set ws. CHR '' '' \<notin> set w" "length ws > 4"
    and down: "\<forall>p. fetch_failed (fetch p)" "\<forall>q. gen_failed (generateContent q)"
    and key: "truthy (API_KEY e)"
  shows "allChats (processTitleUpdateQueue (title_via_proxy fetch) r s)
           = map (\<lambda>chat. if chat_id chat = cid
                         then chat\<lparr>title := join_space (take 4 ws) @ ''...'',
                                   aiMessagesSinceLastTitleUpdate := Some 0\<rparr>
                         else chat) (allChats s)
       \<and> error (processTitleUpdateQueue (title_via_proxy fetch) r s) = error s
       \<and> allChats (processTitleUpdateQueue_keyed e (title_via_sdk e generateContent st) r s)
           = map (\<lambda>chat. if chat_id chat = cid
                         then chat\<lparr>title := join_space (take 4 ws) @ ''...'',
                                   aiMessagesSinceLastTitleUpdate := Some 0\<rparr>
                         else chat) (allChats s)
       \<and> error (processTitleUpdateQueue_keyed e (title_via_sdk e generateContent st) r s) = error s"
proof -
  note w = words_of_text[OF mtext pad ends words]
  have fb: "generateFallbackTitle msgs = join_space (take 4 ws) @ ''...''"
    using first w(1) w(3) words(2) by (rule fallback_title_of_words)
  have g1: "title_via_proxy fetch msgs INITIAL_AI_WELCOME_TEXT_BASE
              = Inr (join_space (take 4 ws) @ ''...'')"
    using proxy_title_when_down[OF first down(1)] by (simp add: fb)
  have g2: "title_via_sdk e generateContent st msgs INITIAL_AI_WELCOME_TEXT_BASE
              = Inr (join_space (take 4 ws) @ ''...'')"
    using sdk_title_when_down[OF first down(2) key] by (simp add: fb)
  note c1 = processTitleUpdateQueue_commit[where gen = "title_via_proxy fetch",
      OF job current first w(2) g1]
  note c2 = processTitleUpdateQueue_commit[where gen = "title_via_sdk e generateContent st",
      OF job current first w(2) g2]
  from c1 c2 key show ?thesis
    by (simp add: processTitleUpdateQueue_keyed_def)
qed

theorem title_fallback_committed_witness:
  "titleUpdateQueue example_title_state
     = Some \<lparr>job_id = ''chat-A'', isNew = False,
             messagesForContext =
               [\<lparr>msg_id = ''user-100'', msg_text = ''Plan my trip to Rome'', sender = User,
                 isStreaming = None, isError = None, thinkingDetails = None\<rparr>]\<rparr>
   \<and> ''Plan my trip to Rome'' = [] @ join_space [''Plan'', ''my'', ''trip'', ''to'', ''Rome''] @ []
   \<and> fetch_failed (fetch_down []) \<and> gen_failed (generateContent_down \<lparr>g_model = TITLE_GENERATION_MODEL_NAME, g_contents = []\<rparr>)
   \<and> truthy (API_KEY env_with_key)
   \<and> map title (allChats (processTitleUpdateQueue (title_via_proxy fetch_down)
                             (render_of example_title_state) example_title_state))
      = [''Plan my trip to...'', ''New Chat'']
   \<and> map title (allChats (processTitleUpdateQueue_keyed env_with_key
                             (title_via_sdk env_with_key generateContent_down fresh_service)
                             (render_of example_title_state) example_title_state))
      = [''Plan my trip to...'', ''New Chat'']"
proof -
  define m where "m = \<lparr>msg_id = ''user-100'', msg_text = ''Plan my trip to Rome'', sender = User,
                 isStreaming = None, isError = None, thinkingDetails = None\<rparr>"
  have job: "titleUpdateQueue example_title_state
     = Some \<lparr>job_id = ''chat-A'', isNew = False, messagesForContext = [m]\<rparr>"
    by (simp add: example_title_state_def m_def)
  have current: "r_currentChatId (render_of example_title_state) = Some ''chat-A'' \<or> False"
    by (simp add: render_of_def example_title_state_def example_app_def)
  have first: "find (\<lambda>m. sender m = User) [m] = Some m" by (simp add: m_def)
  have mtext: "msg_text m = [] @ join_space [''Plan'', ''my'', ''trip'', ''to'', ''Rome''] @ []"
    by (simp add: m_def)
  have pad: "list_all is_js_space []" by simp
  have ends: "\<not> is_js_space (hd (join_space [''Plan'', ''my'', ''trip'', ''to'', ''Rome'']))"
    "\<not> is_js_space (last (join_space [''Plan'', ''my'', ''trip'', ''to'', ''Rome'']))"
    by (simp_all add: is_js_space_def)
  have words: "\<forall>w \<in> set [''Plan'', ''my'', ''trip'', ''to'', ''Rome'']. CHR '' '' \<notin> set w"
    "length [''Plan'', ''my'', ''trip'', ''to'', ''Rome''] > 4"
    by simp_all
  have down: "\<forall>p. fetch_failed (fetch_down p)" "\<forall>q. gen_failed (generateContent_down q)"
    by (simp_all add: fetch_failed_def fetch_down_def gen_failed_def generateContent_down_def)
  have key: "truthy (API_KEY env_with_key)" by (simp add: env_with_key_def truthy_def)
  have chats: "allChats example_title_state = [example_chat_A, example_chat_B]"
    by (simp add: example_title_state_def example_app_def)
  from title_fallback_committed[OF job current first mtext pad pad ends words down key,
      of fresh_service]
  show ?thesis
    using job mtext down key
    by (simp add: chats example_chat_A_def example_chat_B_def m_def)
qed



lemma example_job_title:
  assumes "t \<noteq> []" and "trim t \<noteq> []"
  shows "map title (allChats (processTitleUpdateQueue (title_via_proxy fetch_down)
                      (render_of (example_title_state_for t)) (example_title_state_for t)))
         = [join_space (take (min (length (split_space (trim t))) 4) (split_space (trim t)))
              @ (if length (split_space (trim t)) > 4 then ''...'' else []),
            ''New Chat'']"
proof -
  define m where "m = \<lparr>msg_id = ''user-100'', msg_text = t, sender = User,
                 isStreaming = None, isError = None, thinkingDetails = None\<rparr>"
  have job: "titleUpdateQueue (example_title_state_for t)
     = Some \<lparr>job_id = ''chat-A'', isNew = False, messagesForContext = [m]\<rparr>"
    by (simp add: example_title_state_for_def m_def)
  have current: "r_currentChatId (render_of (example_title_state_for t)) = Some ''chat-A'' \<or> False"
    by (simp add: render_of_def example_title_state_for_def example_app_def)
  have first: "find (\<lambda>m. sender m = User) [m] = Some m" by (simp add: m_def)
  have tr: "trim (msg_text m) \<noteq> []" using assms(2) by (simp add: m_def)
  have down: "\<forall>p. fetch_failed (fetch_down p)"
    by (simp add: fetch_failed_def fetch_down_def)
  have fb: "generateFallbackTitle [m]
         = join_space (take (min (length (split_space (trim t))) 4) (split_space (trim t)))
              @ (if length (split_space (trim t)) > 4 then ''...'' else [])"
    using assms(1) by (simp add: generateFallbackTitle_def m_def Let_def)
  have g: "title_via_proxy fetch_down [m] INITIAL_AI_WELCOME_TEXT_BASE
             = Inr (generateFallbackTitle [m])"
    using first down by (rule proxy_title_when_down)
  have chats: "allChats (example_title_state_for t) = [example_chat_A, example_chat_B]"
    by (simp add: example_title_state_for_def example_app_def)
  from processTitleUpdateQueue_commit(1)[where gen = "title_via_proxy fetch_down",
      OF job current first tr g]
  show ?thesis
    by (simp add: chats example_chat_A_def example_chat_B_def fb)
qed

text \<open>
  C7 as stated fails for the words of ordinary language. Five words on five lines are one
  piece for the code, and the committed title is the whole text without dots; with two
  spaces after the first word the title is made of \<open>Plan\<close>, an empty piece, \<open>my\<close> and
  \<open>trip\<close>. Neither is \<open>Plan my trip to\<close> followed by three dots.
\<close>

theorem title_fallback_words_counterexample:
  "spec_words example_text_lines = [''Plan'', ''my'', ''trip'', ''to'', ''Rome'']
   \<and> map title (allChats (processTitleUpdateQueue (title_via_proxy fetch_down)
                      (render_of (example_title_state_for example_text_lines))
                      (example_title_state_for example_text_lines)))
     = [example_text_lines, ''New Chat'']
   \<and> example_text_lines \<noteq> ''Plan my trip to...''
   \<and> spec_words example_text_two_spaces = [''Plan'', ''my'', ''trip'', ''to'', ''Rome'']
   \<and> map title (allChats (processTitleUpdateQueue (title_via_proxy fetch_down)
                      (render_of (example_title_state_for example_text_two_spaces))
                      (example_title_state_for example_text_two_spaces)))
     = [''Plan  my trip...'', ''New Chat'']"
proof -
  have l: "trim example_text_lines = example_text_lines"
    "split_space example_text_lines = [example_text_lines]" "example_text_lines \<noteq> []"
    by (simp_all add: example_text_lines_def trim_def trimEnd_def trimStart_def is_js_space_def)
  have s: "trim example_text_two_spaces = example_text_two_spaces"
    "split_space example_text_two_spaces = [''Plan'', [], ''my'', ''trip'', ''to'', ''Rome'']"
    "example_text_two_spaces \<noteq> []"
    by (simp_all add: example_text_two_spaces_def trim_def trimEnd_def trimStart_def
        is_js_space_def)
  have w: "spec_words example_text_lines = [''Plan'', ''my'', ''trip'', ''to'', ''Rome'']"
    "spec_words example_text_two_spaces = [''Plan'', ''my'', ''trip'', ''to'', ''Rome'']"
    by (simp_all add: spec_words_def example_text_lines_def example_text_two_spaces_def
        is_js_space_def)
  have n: "example_text_lines \<noteq> ''Plan my trip to...''"
    by (simp add: example_text_lines_def)
  from example_job_title[of example_text_lines] example_job_title[of example_text_two_spaces]
  show ?thesis using w n by (simp add: l s)
qed

section \<open>The persistence adapter\<close>

lemma keys_distinct:
  "BASE_THEME_KEY \<noteq> ACCENT_THEME_KEY" "BASE_THEME_KEY \<noteq> CUSTOM_CSS_KEY"
  "BASE_THEME_KEY \<noteq> TARGET_LANGUAGE_KEY" "ACCENT_THEME_KEY \<noteq> CUSTOM_CSS_KEY"
  "ACCENT_THEME_KEY \<noteq> TARGET_LANGUAGE_KEY" "CUSTOM_CSS_KEY \<noteq> TARGET_LANGUAGE_KEY"
  by (simp_all add: BASE_THEME_KEY_def ACCENT_THEME_KEY_def CUSTOM_CSS_KEY_def
      TARGET_LANGUAGE_KEY_def)

lemma or_else_empty [simp]: "or_else (Some v) [] = v"
  by (simp add: or_else_def)

lemma getItem_setItem:
  assumes "\<not> accessDenied st" and "\<not> quotaExceeded st"
  shows "getItem (catch_write st (setItem st k v)) k' = Inr (if k' = k then Some v else items st k')"
  using assms by (simp add: getItem_def setItem_def catch_write_def)

lemma loads_after_save:
  assumes "\<not> accessDenied st" and "\<not> quotaExceeded st"
  shows "loadBaseTheme (catch_write st (setItem st k v))
           = (if k = BASE_THEME_KEY then Some v else loadBaseTheme st)"
    and "loadAccentTheme (catch_write st (setItem st k v))
           = (if k = ACCENT_THEME_KEY then Some v else loadAccentTheme st)"
    and "loadCustomCSS (catch_write st (setItem st k v))
           = (if k = CUSTOM_CSS_KEY then v else loadCustomCSS st)"
    and "loadTargetLanguage (catch_write st (setItem st k v))
           = (if k = TARGET_LANGUAGE_KEY then Some v else loadTargetLanguage st)"
  using assms
  by (simp_all add: loadBaseTheme_def loadAccentTheme_def loadCustomCSS_def loadTargetLanguage_def
      getItem_setItem catch_read_def)
     (simp_all add: getItem_def)

lemma or_else_Some: "or_else (Some v) d = (if v = [] then d else v)"
  by (simp add: or_else_def)

lemma preferences_saved_one_by_one:
  assumes "\<not> accessDenied st" and "\<not> quotaExceeded st"
  shows "initial_preferences (saveBaseTheme v st)
           = (initial_preferences st)\<lparr>baseTheme := (if v = [] then ''dark'' else v)\<rparr>"
    and "initial_preferences (saveAccentTheme v st)
           = (initial_preferences st)\<lparr>accentTheme := (if v = [] then ''default'' else v)\<rparr>"
    and "initial_preferences (saveCustomCSS v st)
           = (initial_preferences st)\<lparr>customCSS := v\<rparr>"
    and "initial_preferences (saveTargetLanguage v st)
           = (initial_preferences st)\<lparr>targetLanguage := (if v = [] then ''none'' else v)\<rparr>"
  using keys_distinct
  by (simp_all add: initial_preferences_def saveBaseTheme_def saveAccentTheme_def
      saveCustomCSS_def saveTargetLanguage_def loads_after_save[OF assms] or_else_Some
      DEFAULT_TARGET_LANGUAGE_def)

lemma preferences_defaults:
  "items st BASE_THEME_KEY = None \<Longrightarrow> baseTheme (initial_preferences st) = ''dark''"
  "items st ACCENT_THEME_KEY = None \<Longrightarrow> accentTheme (initial_preferences st) = ''default''"
  "items st CUSTOM_CSS_KEY = None \<Longrightarrow> customCSS (initial_preferences st) = []"
  "items st TARGET_LANGUAGE_KEY = None \<Longrightarrow> targetLanguage (initial_preferences st) = ''none''"
  "thinkingBudget (initial_preferences st) = 0"
  "currentChatModel (initial_preferences st) = DEFAULT_CHAT_MODEL"
  by (simp_all add: initial_preferences_def loadBaseTheme_def loadAccentTheme_def
      loadCustomCSS_def loadTargetLanguage_def getItem_def catch_read_def or_else_def
      DEFAULT_TARGET_LANGUAGE_def)

text \<open>
  C8, as the code has it. Base theme, accent theme, custom style text and target language
  are each saved under a key of their own: on a storage that accepts the write, saving
  one of them changes what the next start of the application reads for that preference
  and for no other; an empty theme or language is read as its default. When the stored
  value is absent the start yields dark, default, the empty text and none. The thinking
  budget and the selected model are not stored: every start yields 0 and the default
  model.
\<close>

theorem preferences_persisted:
  assumes "\<not> accessDenied st" and "\<not> quotaExceeded st"
  shows "initial_preferences (saveBaseTheme v st)
           = (initial_preferences st)\<lparr>baseTheme := (if v = [] then ''dark'' else v)\<rparr>
       \<and> initial_preferences (saveAccentTheme v st)
           = (initial_preferences st)\<lparr>accentTheme := (if v = [] then ''default'' else v)\<rparr>
       \<and> initial_preferences (saveCustomCSS v st)
           = (initial_preferences st)\<lparr>customCSS := v\<rparr>
       \<and> initial_preferences (saveTargetLanguage v st)
           = (initial_preferences st)\<lparr>targetLanguage := (if v = [] then ''none'' else v)\<rparr>
       \<and> (items st BASE_THEME_KEY = None \<longrightarrow> baseTheme (initial_preferences st) = ''dark'')
       \<and> (items st ACCENT_THEME_KEY = None \<longrightarrow> accentTheme (initial_preferences st) = ''default'')
       \<and> (items st CUSTOM_CSS_KEY = None \<longrightarrow> customCSS (initial_preferences st) = [])
       \<and> (items st TARGET_LANGUAGE_KEY = None \<longrightarrow> targetLanguage (initial_preferences st) = ''none'')
       \<and> thinkingBudget (initial_preferences (persist_preferences p st)) = 0
       \<and> currentChatModel (initial_preferences (persist_preferences p st)) = DEFAULT_CHAT_MODEL"
  using preferences_saved_one_by_one[OF assms, of v] preferences_defaults[of st]
    preferences_defaults(5,6)[of "persist_preferences p st"]
  by simp

theorem preferences_persisted_witness:
  "\<not> accessDenied empty_storage \<and> \<not> quotaExceeded empty_storage
   \<and> initial_preferences (saveBaseTheme ''light'' empty_storage)
       = \<lparr>baseTheme = ''light'', accentTheme = ''default'', customCSS = [],
          targetLanguage = ''none'', thinkingBudget = 0, currentChatModel = ''gemini-2.5-flash''\<rparr>
   \<and> initial_preferences (saveTargetLanguage ''fr'' empty_storage)
       = \<lparr>baseTheme = ''dark'', accentTheme = ''default'', customCSS = [],
          targetLanguage = ''fr'', thinkingBudget = 0, currentChatModel = ''gemini-2.5-flash''\<rparr>"
proof -
  have a: "\<not> accessDenied empty_storage" "\<not> quotaExceeded empty_storage"
    by (simp_all add: empty_storage_def)
  have i: "initial_preferences empty_storage
       = \<lparr>baseTheme = ''dark'', accentTheme = ''default'', customCSS = [],
          targetLanguage = ''none'', thinkingBudget = 0, currentChatModel = ''gemini-2.5-flash''\<rparr>"
    by (simp add: initial_preferences_def loadBaseTheme_def loadAccentTheme_def
      loadCustomCSS_def loadTargetLanguage_def getItem_def catch_read_def or_else_def
      DEFAULT_TARGET_LANGUAGE_def DEFAULT_CHAT_MODEL_def empty_storage_def)
  from preferences_persisted[OF a, of "''light''"] preferences_persisted[OF a, of "''fr''"]
  show ?thesis using a by (simp add: i)
qed

text \<open>
  C8 as stated fails for the thinking budget: a budget of 3 is not there after everything
  has been saved and the application starts again.
\<close>

theorem thinking_budget_not_persisted_counterexample:
  "thinkingBudget (initial_preferences (persist_preferences example_prefs empty_storage))
   \<noteq> thinkingBudget example_prefs"
  by (simp add: preferences_defaults example_prefs_def)

text \<open>
  C10. No load operation of the adapter lets an exception out. \<open>loadChats\<close> returns the
  empty list whenever its body throws, in particular when the stored text is not valid
  JSON, and also when nothing is stored. When the storage itself throws, every load
  returns its default: the empty list, null, or the empty text. When nothing is stored
  under its key, each of the other loads returns null, or the empty text for the custom
  style.
\<close>

theorem loads_return_defaults:
  "(loadChats_try parse st = Inl err \<longrightarrow> loadChats parse st = [])
   \<and> (items st ALL_CHATS_KEY = None \<longrightarrow> loadChats parse st = [])
   \<and> (\<not> accessDenied st \<and> items st ALL_CHATS_KEY = Some j \<and> j \<noteq> [] \<and> parse j = None
        \<longrightarrow> loadChats_try parse st = Inl SyntaxError \<and> loadChats parse st = [])
   \<and> (accessDenied st \<longrightarrow>
        loadChats parse st = [] \<and> loadActiveChatId st = None \<and> loadCustomCSS st = []
        \<and> loadBaseTheme st = None \<and> loadAccentTheme st = None
        \<and> loadTargetLanguage st = None \<and> loadTheme st = None)
   \<and> (items st ACTIVE_CHAT_ID_KEY = None \<longrightarrow> loadActiveChatId st = None)
   \<and> (items st CUSTOM_CSS_KEY = None \<longrightarrow> loadCustomCSS st = [])
   \<and> (items st BASE_THEME_KEY = None \<longrightarrow> loadBaseTheme st = None)
   \<and> (items st ACCENT_THEME_KEY = None \<longrightarrow> loadAccentTheme st = None)
   \<and> (items st TARGET_LANGUAGE_KEY = None \<longrightarrow> loadTargetLanguage st = None)
   \<and> (items st THEME_KEY = None \<longrightarrow> loadTheme st = None)"
  by (simp add: loadChats_def loadChats_try_def loadActiveChatId_def loadCustomCSS_def
      loadBaseTheme_def loadAccentTheme_def loadTargetLanguage_def loadTheme_def
      getItem_def catch_read_def or_else_def truthy_def)


theorem loads_return_defaults_witness:
  "accessDenied denied_storage
   \<and> loadChats example_parse denied_storage = []
   \<and> loadActiveChatId denied_storage = None
   \<and> loadCustomCSS denied_storage = []
   \<and> items broken_storage ALL_CHATS_KEY = Some ''{oops''
   \<and> example_parse ''{oops'' = None
   \<and> loadChats_try example_parse broken_storage = Inl SyntaxError
   \<and> loadChats example_parse broken_storage = []
   \<and> items empty_storage ALL_CHATS_KEY = None
   \<and> loadChats example_parse empty_storage = []"
proof -
  have a: "accessDenied denied_storage" by (simp add: denied_storage_def)
  have b: "\<not> accessDenied broken_storage" "items broken_storage ALL_CHATS_KEY = Some ''{oops''"
    "''{oops'' \<noteq> []" "example_parse ''{oops'' = None"
    by (simp_all add: broken_storage_def example_parse_def)
  have c: "items empty_storage ALL_CHATS_KEY = None" by (simp add: empty_storage_def)
  from loads_return_defaults[of example_parse denied_storage SecurityError "''{oops''"]
    loads_return_defaults[of example_parse broken_storage SyntaxError "''{oops''"]
    loads_return_defaults[of example_parse empty_storage SyntaxError "''{oops''"]
  show ?thesis using a b c by simp
qed

end
